theory Spec2Isabelle
  imports Main "HOL-Library.AList"
begin

section \<open>Shared data of the plugin\<close>

text \<open>
  Timestamps are whole milliseconds since the Unix epoch, the unit of the TypeScript
  interface (\<open>endTime: number\<close>, \<open>Date.now()\<close>). The Swift side converts them to
  \<open>Date\<close> values (\<open>endTime / 1000\<close> seconds) and back (\<open>* 1000\<close>); the model keeps the
  millisecond count and so treats the clock as ticking in whole milliseconds.
  A \<open>customData\<close> dictionary (\<open>Record<string, string>\<close>, \<open>[String: String]\<close>) is an
  association list.
\<close>

type_synonym time = int
type_synonym custom_data = "(string \<times> string) list"

text \<open>Values that cross the bridge: call options and event payloads.\<close>

datatype jsval = JUndefined | JStr string | JNum int | JBool bool | JObj custom_data

type_synonym payload = "(string \<times> jsval) list"

text \<open>A bridged call either rejects with a message or resolves with a value.\<close>

datatype 'a call_result = Reject string | Resolve 'a

text \<open>\<open>StartTimerResult\<close> and \<open>ActiveTimer\<close> of the TypeScript definitions.\<close>

record StartTimerResult =
  success :: bool
  result_id :: string
  activityToken :: "string option"
  error :: "string option"

record ActiveTimer =
  at_id :: string
  at_type :: string
  at_title :: string
  at_subtitle :: "string option"
  at_detail :: "string option"
  at_endTime :: time
  at_remainingSeconds :: int
  at_expired :: bool
  at_startedAt :: time
  at_customData :: "custom_data option"

section \<open>The iOS plugin (LiveActivitiesPlugin.swift)\<close>

subsection \<open>State\<close>

record TimerMetadata =
  md_endTime :: time
  hapticOnExpire :: bool
  soundOnExpire :: bool
  hasExpired :: bool

record ContentState =
  title :: string
  subtitle :: string
  detail :: string
  endTime :: time
  customData :: custom_data

record VetDrugsTimerAttributes =
  attr_id :: string
  timerType :: string
  icon :: string
  accentColorHex :: string

text \<open>
  An \<open>Activity<VetDrugsTimerAttributes>\<close>: its fixed attributes, its current content
  (state and stale date) and the identifier the system gave it.
\<close>

record Activity =
  attributes :: VetDrugsTimerAttributes
  content_state :: ContentState
  staleDate :: "time option"
  activity_id :: string

text \<open>
  The plugin object: the two dictionaries and the optional repeating \<open>Timer\<close>
  (\<open>True\<close> when \<open>expirationCheckTimer\<close> is not nil). A Swift dictionary holds each key
  once; the association lists are kept with distinct keys by \<open>AList.update\<close> and
  \<open>AList.delete\<close>.
\<close>

record plugin_state =
  activeTimers :: "(string \<times> Activity) list"
  timerMetadata :: "(string \<times> TimerMetadata) list"
  expirationCheckTimer :: bool

definition initial_plugin :: plugin_state where
  "initial_plugin = \<lparr>activeTimers = [], timerMetadata = [], expirationCheckTimer = False\<rparr>"

datatype ActivityUIDismissalPolicy = immediate | after time | default_policy

datatype ActivityState = active | ended | dismissed | stale

text \<open>
  What a handler asks of its collaborators, in the order of the requests: the haptic
  generator, the system sound, an event for the JavaScript listeners, and ActivityKit
  (update or end of a Live Activity). Logging is left out.
\<close>

datatype effect =
    Haptic
  | Sound
  | Notify string payload
  | ActivityUpdate string ContentState "time option"
  | ActivityEnd string "ContentState option" ActivityUIDismissalPolicy

subsection \<open>Reading a call's options\<close>

text \<open>
  \<open>CAPPluginCall.getString\<close>, \<open>getDouble\<close>, \<open>getBool\<close> and \<open>getObject\<close> return nil when
  the key is absent or holds a value of another type.
\<close>

definition getString :: "string \<Rightarrow> payload \<Rightarrow> string option" where
  "getString k call = (case map_of call k of Some (JStr v) \<Rightarrow> Some v | _ \<Rightarrow> None)"

definition getDouble :: "string \<Rightarrow> payload \<Rightarrow> int option" where
  "getDouble k call = (case map_of call k of Some (JNum v) \<Rightarrow> Some v | _ \<Rightarrow> None)"

definition getBool :: "string \<Rightarrow> payload \<Rightarrow> bool option" where
  "getBool k call = (case map_of call k of Some (JBool v) \<Rightarrow> Some v | _ \<Rightarrow> None)"

definition getObject :: "string \<Rightarrow> payload \<Rightarrow> custom_data option" where
  "getObject k call = (case map_of call k of Some (JObj v) \<Rightarrow> Some v | _ \<Rightarrow> None)"

definition orElse :: "'a option \<Rightarrow> 'a \<Rightarrow> 'a" where
  "orElse x d = (case x of Some v \<Rightarrow> v | None \<Rightarrow> d)"

subsection \<open>Private helpers\<close>

definition iconForType :: "string \<Rightarrow> string" where
  "iconForType t =
     (if t = ''cri'' then ''syringe.fill''
      else if t = ''cpr'' then ''heart.fill''
      else if t = ''fluid'' then ''drop.fill''
      else if t = ''anesthesia'' then ''lungs.fill''
      else ''timer'')"

definition colorForType :: "string \<Rightarrow> string" where
  "colorForType t =
     (if t = ''cri'' then ''#007AFF''
      else if t = ''cpr'' then ''#FF3B30''
      else if t = ''fluid'' then ''#34C759''
      else if t = ''anesthesia'' then ''#AF52DE''
      else ''#8E8E93'')"

definition getActivity :: "string \<Rightarrow> plugin_state \<Rightarrow> Activity option" where
  "getActivity i s = map_of (activeTimers s) i"

text \<open>
  The Swift code reads and writes \<open>expirationCheckTimer\<close> on the main queue
  (\<open>DispatchQueue.main.async\<close>); the model performs the write at once.
\<close>

definition startExpirationCheckTimer :: "plugin_state \<Rightarrow> plugin_state" where
  "startExpirationCheckTimer s =
     (if expirationCheckTimer s then s else s\<lparr>expirationCheckTimer := True\<rparr>)"

definition stopExpirationCheckTimer :: "plugin_state \<Rightarrow> plugin_state" where
  "stopExpirationCheckTimer s = s\<lparr>expirationCheckTimer := False\<rparr>"

subsection \<open>startTimer\<close>

text \<open>
  \<open>avail\<close> is the outcome of \<open>#available(iOS 16.2, *)\<close>. \<open>request\<close> is the outcome of
  \<open>Activity.request\<close>: \<open>Inr\<close> the new activity's identifier, or \<open>Inl\<close> the description of
  the error it threw.
\<close>

definition startTimer ::
  "bool \<Rightarrow> payload \<Rightarrow> string + string \<Rightarrow> plugin_state
     \<Rightarrow> StartTimerResult call_result \<times> plugin_state \<times> effect list" where
  "startTimer avail call request s =
     (if \<not> avail then
        (Resolve \<lparr>success = False, result_id = orElse (getString ''id'' call) [],
                  activityToken = None,
                  error = Some ''Live Activities require iOS 16.2 or later''\<rparr>, s, [])
      else case getString ''id'' call of
        None \<Rightarrow> (Reject ''Timer ID is required'', s, [])
      | Some i \<Rightarrow>
      (case getString ''title'' call of
        None \<Rightarrow> (Reject ''Timer title is required'', s, [])
      | Some ttl \<Rightarrow>
      (case getDouble ''endTime'' call of
        None \<Rightarrow> (Reject ''Timer endTime is required'', s, [])
      | Some endDate \<Rightarrow>
        let tType = orElse (getString ''type'' call) ''generic'';
            attrs = \<lparr>attr_id = i, timerType = tType,
                     icon = orElse (getString ''icon'' call) (iconForType tType),
                     accentColorHex =
                       orElse (getString ''accentColor'' call) (colorForType tType)\<rparr>;
            initialState =
              \<lparr>title = ttl,
               subtitle = orElse (getString ''subtitle'' call) [],
               detail = orElse (getString ''detail'' call) [],
               endTime = endDate,
               customData = orElse (getObject ''customData'' call) []\<rparr>;
            s1 = s\<lparr>timerMetadata :=
                     AList.update i
                       \<lparr>md_endTime = endDate,
                        hapticOnExpire = orElse (getBool ''hapticOnExpire'' call) True,
                        soundOnExpire = orElse (getBool ''soundOnExpire'' call) True,
                        hasExpired = False\<rparr>
                       (timerMetadata s)\<rparr>
        in (case request of
              Inr token \<Rightarrow>
                (Resolve \<lparr>success = True, result_id = i, activityToken = Some token,
                          error = None\<rparr>,
                 startExpirationCheckTimer
                   (s1\<lparr>activeTimers :=
                         AList.update i
                           \<lparr>attributes = attrs, content_state = initialState,
                            staleDate = Some (endDate + 60000), activity_id = token\<rparr>
                           (activeTimers s1)\<rparr>),
                 [])
            | Inl err \<Rightarrow>
                (Resolve \<lparr>success = False, result_id = i, activityToken = None,
                          error = Some err\<rparr>, s1, [])))))"

subsection \<open>updateTimer\<close>

text \<open>
  The new content is handed to \<open>activity.update\<close> in a \<open>Task\<close>; the model applies it to
  the activity at once. The handler does not touch \<open>timerMetadata\<close>.
\<close>

definition updateTimer ::
  "bool \<Rightarrow> payload \<Rightarrow> plugin_state \<Rightarrow> unit call_result \<times> plugin_state \<times> effect list" where
  "updateTimer avail call s =
     (if \<not> avail then (Reject ''Live Activities require iOS 16.2 or later'', s, [])
      else case getString ''id'' call of
        None \<Rightarrow> (Reject ''Timer ID is required'', s, [])
      | Some i \<Rightarrow>
      (case getActivity i s of
        None \<Rightarrow> (Reject (''Timer not found: '' @ i), s, [])
      | Some activity \<Rightarrow>
        let currentState = content_state activity;
            updatedState =
              \<lparr>title = orElse (getString ''title'' call) (title currentState),
               subtitle = orElse (getString ''subtitle'' call) (subtitle currentState),
               detail = orElse (getString ''detail'' call) (detail currentState),
               endTime = orElse (getDouble ''endTime'' call) (endTime currentState),
               customData =
                 orElse (getObject ''customData'' call) (customData currentState)\<rparr>;
            stale' = Some (endTime updatedState + 60000)
        in (Resolve (),
            s\<lparr>activeTimers :=
                AList.update i
                  (activity\<lparr>content_state := updatedState, staleDate := stale'\<rparr>)
                  (activeTimers s)\<rparr>,
            [ActivityUpdate i updatedState stale'])))"

subsection \<open>endTimer\<close>

text \<open>
  \<open>now\<close> is the value of \<open>Date()\<close> during the call; \<open>dismissAfterSeconds\<close> is taken in
  whole seconds. The body runs in a \<open>Task\<close>; the model runs it as one step.
\<close>

definition endTimer ::
  "bool \<Rightarrow> payload \<Rightarrow> time \<Rightarrow> plugin_state
     \<Rightarrow> unit call_result \<times> plugin_state \<times> effect list" where
  "endTimer avail call now s =
     (if \<not> avail then (Reject ''Live Activities require iOS 16.2 or later'', s, [])
      else case getString ''id'' call of
        None \<Rightarrow> (Reject ''Timer ID is required'', s, [])
      | Some i \<Rightarrow>
      (case getActivity i s of
        None \<Rightarrow> (Reject (''Timer not found: '' @ i), s, [])
      | Some activity \<Rightarrow>
        let dismissalPolicy = orElse (getString ''dismissalPolicy'' call) ''default'';
            dismissAfterSeconds = orElse (getDouble ''dismissAfterSeconds'' call) 0;
            st = content_state activity;
            finalState =
              (case getString ''finalMessage'' call of
                 Some message \<Rightarrow>
                   \<lparr>title = message, subtitle = subtitle st, detail = [],
                    endTime = now, customData = customData st\<rparr>
               | None \<Rightarrow> st);
            policy =
              (if dismissalPolicy = ''immediate'' then immediate
               else if dismissalPolicy = ''after''
                 then after (now + 1000 * dismissAfterSeconds)
               else default_policy);
            s1 = s\<lparr>activeTimers := AList.delete i (activeTimers s),
                   timerMetadata := AList.delete i (timerMetadata s)\<rparr>;
            s2 = (if activeTimers s1 = [] then stopExpirationCheckTimer s1 else s1)
        in (Resolve (), s2,
            [ActivityEnd i (Some finalState) policy,
             Notify ''timerDismissed''
               [(''id'', JStr i), (''eventType'', JStr ''dismissed''),
                (''timestamp'', JNum now)]])))"

subsection \<open>endAllTimers\<close>

definition endAllTimers ::
  "bool \<Rightarrow> plugin_state \<Rightarrow> nat call_result \<times> plugin_state \<times> effect list" where
  "endAllTimers avail s =
     (if \<not> avail then (Resolve 0, s, [])
      else
        let count = length (activeTimers s)
        in (Resolve count,
            stopExpirationCheckTimer (s\<lparr>activeTimers := [], timerMetadata := []\<rparr>),
            map (\<lambda>(i, a). ActivityEnd i None immediate) (activeTimers s)))"

subsection \<open>getActiveTimers and isTimerActive\<close>

text \<open>
  \<open>remaining\<close> is the Swift local \<open>remainingSeconds\<close>
  (\<open>max(0, state.endTime.timeIntervalSince(Date()))\<close>), here in milliseconds:
  \<open>Int(remainingSeconds)\<close> drops the fraction of a second, and
  \<open>endTime * 1000 - remainingSeconds * 1000\<close> is \<open>endTime - remaining\<close>.
\<close>

definition listTimer :: "time \<Rightarrow> string \<times> Activity \<Rightarrow> ActiveTimer" where
  "listTimer now p =
     (let i = fst p; activity = snd p;
          state = content_state activity;
          remaining = max 0 (endTime state - now)
      in \<lparr>at_id = i,
          at_type = timerType (attributes activity),
          at_title = title state,
          at_subtitle = Some (subtitle state),
          at_detail = Some (detail state),
          at_endTime = endTime state,
          at_remainingSeconds = remaining div 1000,
          at_expired = (remaining \<le> 0),
          at_startedAt = endTime (content_state activity) - remaining,
          at_customData = Some (customData state)\<rparr>)"

definition getActiveTimers ::
  "bool \<Rightarrow> time \<Rightarrow> plugin_state \<Rightarrow> ActiveTimer list call_result" where
  "getActiveTimers avail now s =
     (if \<not> avail then Resolve [] else Resolve (map (listTimer now) (activeTimers s)))"

definition isTimerActive ::
  "bool \<Rightarrow> payload \<Rightarrow> time \<Rightarrow> plugin_state \<Rightarrow> bool call_result" where
  "isTimerActive avail call now s =
     (case getString ''id'' call of
        None \<Rightarrow> Reject ''Timer ID is required''
      | Some i \<Rightarrow>
          if avail then
            (case getActivity i s of
               Some activity \<Rightarrow> Resolve (endTime (content_state activity) - now > 0)
             | None \<Rightarrow> Resolve False)
          else Resolve False)"

subsection \<open>Activity state changes\<close>

text \<open>
  \<open>startTimer\<close> leaves a \<open>Task\<close> behind that calls this handler for every state the
  system reports for the activity (\<open>activity.activityStateUpdates\<close>).
\<close>

definition handleActivityStateChange ::
  "string \<Rightarrow> ActivityState \<Rightarrow> time \<Rightarrow> plugin_state \<Rightarrow> plugin_state \<times> effect list" where
  "handleActivityStateChange i state now s =
     (let removed = s\<lparr>activeTimers := AList.delete i (activeTimers s),
                       timerMetadata := AList.delete i (timerMetadata s)\<rparr>;
          r = (case state of
                 ended \<Rightarrow>
                   (removed,
                    [Notify ''timerExpired''
                       [(''id'', JStr i), (''eventType'', JStr ''expired''),
                        (''timestamp'', JNum now)]])
               | dismissed \<Rightarrow> (removed, [])
               | stale \<Rightarrow> (s, [])
               | active \<Rightarrow> (s, []))
      in (if activeTimers (fst r) = [] then stopExpirationCheckTimer (fst r) else fst r,
          snd r))"

subsection \<open>The expiration check\<close>

definition updateActivityToComplete ::
  "string \<Rightarrow> time \<Rightarrow> plugin_state \<Rightarrow> plugin_state \<times> effect list" where
  "updateActivityToComplete i now s =
     (case getActivity i s of
        None \<Rightarrow> (s, [])
      | Some activity \<Rightarrow>
          let currentState = content_state activity;
              completedState =
                \<lparr>title = title currentState @ '' - Complete'',
                 subtitle = subtitle currentState,
                 detail = ''Timer finished'',
                 endTime = now,
                 customData = customData currentState\<rparr>
          in (s\<lparr>activeTimers :=
                  AList.update i
                    (activity\<lparr>content_state := completedState, staleDate := None\<rparr>)
                    (activeTimers s)\<rparr>,
              [ActivityUpdate i completedState None]))"

text \<open>
  The body of the \<open>for (id, var metadata) in timerMetadata\<close> loop for one entry of the
  dictionary as it was when the loop started.
\<close>

definition expireEntry ::
  "bool \<Rightarrow> time \<Rightarrow> string \<Rightarrow> TimerMetadata \<Rightarrow> plugin_state
     \<Rightarrow> plugin_state \<times> effect list" where
  "expireEntry avail now i metadata s =
     (if hasExpired metadata then (s, [])
      else if md_endTime metadata \<le> now then
        let s1 = s\<lparr>timerMetadata :=
                     AList.update i (metadata\<lparr>hasExpired := True\<rparr>) (timerMetadata s)\<rparr>;
            fx = (if hapticOnExpire metadata then [Haptic] else [])
                 @ (if soundOnExpire metadata then [Sound] else [])
                 @ [Notify ''timerExpired''
                      [(''id'', JStr i), (''eventType'', JStr ''expired''),
                       (''timestamp'', JNum now)]];
            r = (if avail then updateActivityToComplete i now s1 else (s1, []))
        in (fst r, fx @ snd r)
      else (s, []))"

fun expireLoop ::
  "bool \<Rightarrow> time \<Rightarrow> (string \<times> TimerMetadata) list \<Rightarrow> plugin_state
     \<Rightarrow> plugin_state \<times> effect list" where
  "expireLoop avail now [] s = (s, [])"
| "expireLoop avail now (e # es) s =
     (let r1 = expireEntry avail now (fst e) (snd e) s;
          r2 = expireLoop avail now es (fst r1)
      in (fst r2, snd r1 @ snd r2))"

definition checkForExpiredTimers ::
  "bool \<Rightarrow> time \<Rightarrow> plugin_state \<Rightarrow> plugin_state \<times> effect list" where
  "checkForExpiredTimers avail now s = expireLoop avail now (timerMetadata s) s"

subsection \<open>Runs of the plugin\<close>

text \<open>
  What can happen to the plugin: a bridged call, a firing of the repeating one-second
  \<open>Timer\<close> (which exists only while \<open>expirationCheckTimer\<close> is set), or a state reported
  by the system for an activity. The queries do not change the state.
\<close>

datatype ios_op =
    StartTimer payload "string + string"
  | UpdateTimer payload
  | EndTimer payload time
  | EndAllTimers
  | Tick time
  | StateChange string ActivityState time

definition ios_step :: "bool \<Rightarrow> ios_op \<Rightarrow> plugin_state \<Rightarrow> plugin_state \<times> effect list" where
  "ios_step avail op s =
     (case op of
        StartTimer call request \<Rightarrow> snd (startTimer avail call request s)
      | UpdateTimer call \<Rightarrow> snd (updateTimer avail call s)
      | EndTimer call now \<Rightarrow> snd (endTimer avail call now s)
      | EndAllTimers \<Rightarrow> snd (endAllTimers avail s)
      | Tick now \<Rightarrow>
          (if expirationCheckTimer s then checkForExpiredTimers avail now s else (s, []))
      | StateChange i state now \<Rightarrow> handleActivityStateChange i state now s)"

fun ios_run :: "bool \<Rightarrow> ios_op list \<Rightarrow> plugin_state \<Rightarrow> plugin_state \<times> effect list" where
  "ios_run avail [] s = (s, [])"
| "ios_run avail (op # ops) s =
     (let r1 = ios_step avail op s;
          r2 = ios_run avail ops (fst r1)
      in (fst r2, snd r1 @ snd r2))"

text \<open>The \<open>timerExpired\<close> events for one timer id among a handler's requests.\<close>

definition isExpiredEventFor :: "string \<Rightarrow> effect \<Rightarrow> bool" where
  "isExpiredEventFor i e =
     (case e of
        Notify name data \<Rightarrow> name = ''timerExpired'' \<and> map_of data ''id'' = Some (JStr i)
      | _ \<Rightarrow> False)"

definition expiredEvents :: "string \<Rightarrow> effect list \<Rightarrow> nat" where
  "expiredEvents i out = length (filter (isExpiredEventFor i) out)"

section \<open>The web implementation (LiveActivitiesWeb)\<close>

subsection \<open>Options of the calls\<close>

text \<open>
  The option objects of the TypeScript definitions; an optional property that is
  \<open>undefined\<close> is \<open>None\<close>.
\<close>

record StartTimerOptions =
  o_id :: string
  o_type :: string
  o_title :: string
  o_subtitle :: "string option"
  o_detail :: "string option"
  o_endTime :: time
  o_icon :: "string option"
  o_accentColor :: "string option"
  o_hapticOnExpire :: "bool option"
  o_soundOnExpire :: "bool option"
  o_customData :: "custom_data option"

record UpdateTimerOptions =
  u_id :: string
  u_title :: "string option"
  u_subtitle :: "string option"
  u_detail :: "string option"
  u_endTime :: "time option"
  u_customData :: "custom_data option"

record EndTimerOptions =
  e_id :: string
  e_dismissalPolicy :: "string option"
  e_dismissAfterSeconds :: "int option"
  e_finalMessage :: "string option"

subsection \<open>State\<close>

text \<open>
  The two \<open>Map\<close>s of the class (a JavaScript \<open>Map\<close> keeps insertion order and one entry
  per key), and the part of the window the class drives: the intervals that
  \<open>setInterval\<close> started and \<open>clearInterval\<close> has not cleared, each with the options its
  callback closed over, and the next handle \<open>setInterval\<close> returns (handles are
  positive).
\<close>

record web_state =
  timers :: "(string \<times> ActiveTimer) list"
  timerIntervals :: "(string \<times> nat) list"
  intervals :: "(nat \<times> StartTimerOptions) list"
  nextHandle :: nat

definition initial_web :: web_state where
  "initial_web = \<lparr>timers = [], timerIntervals = [], intervals = [], nextHandle = 1\<rparr>"

definition optData :: "custom_data option \<Rightarrow> jsval" where
  "optData d = (case d of None \<Rightarrow> JUndefined | Some v \<Rightarrow> JObj v)"

subsection \<open>Operations\<close>

text \<open>\<open>now\<close> is \<open>Date.now()\<close>; \<open>Math.floor(x / 1000)\<close> is \<open>x div 1000\<close> on integers.\<close>

definition web_startTimer ::
  "StartTimerOptions \<Rightarrow> time \<Rightarrow> web_state
     \<Rightarrow> StartTimerResult call_result \<times> web_state \<times> effect list" where
  "web_startTimer options now s =
     (let timer =
            \<lparr>at_id = o_id options,
             at_type = o_type options,
             at_title = o_title options,
             at_subtitle = o_subtitle options,
             at_detail = o_detail options,
             at_endTime = o_endTime options,
             at_remainingSeconds = (o_endTime options - now) div 1000,
             at_expired = False,
             at_startedAt = now,
             at_customData = o_customData options\<rparr>;
          intervalId = nextHandle s
      in (Resolve \<lparr>success = True, result_id = o_id options,
                    activityToken = Some (''web-mock-'' @ o_id options), error = None\<rparr>,
          s\<lparr>timers := AList.update (o_id options) timer (timers s),
            timerIntervals := AList.update (o_id options) intervalId (timerIntervals s),
            intervals := intervals s @ [(intervalId, options)],
            nextHandle := intervalId + 1\<rparr>,
          []))"

text \<open>
  One run of the callback that \<open>startTimer\<close> gave to \<open>setInterval\<close>, for the interval
  with the given handle; a cleared interval does not run.
\<close>

definition web_intervalFired ::
  "nat \<Rightarrow> time \<Rightarrow> web_state \<Rightarrow> web_state \<times> effect list" where
  "web_intervalFired handle now s =
     (case map_of (intervals s) handle of
        None \<Rightarrow> (s, [])
      | Some options \<Rightarrow>
      (case map_of (timers s) (o_id options) of
        None \<Rightarrow> (s, [])
      | Some t \<Rightarrow>
          let t1 = t\<lparr>at_remainingSeconds := (at_endTime t - now) div 1000\<rparr>
          in if at_remainingSeconds t1 \<le> 0 \<and> \<not> at_expired t1 then
               (s\<lparr>timers := AList.update (o_id options) (t1\<lparr>at_expired := True\<rparr>) (timers s)\<rparr>,
                [Notify ''timerExpired''
                   [(''id'', JStr (o_id options)),
                    (''eventType'', JStr ''expired''),
                    (''type'', JStr (o_type options)),
                    (''title'', JStr (o_title options)),
                    (''customData'', optData (o_customData options)),
                    (''timestamp'', JNum now)]])
             else (s\<lparr>timers := AList.update (o_id options) t1 (timers s)\<rparr>, [])))"

definition web_updateTimer ::
  "UpdateTimerOptions \<Rightarrow> time \<Rightarrow> web_state \<Rightarrow> unit call_result \<times> web_state" where
  "web_updateTimer options now s =
     (case map_of (timers s) (u_id options) of
        None \<Rightarrow> (Reject (''Timer not found: '' @ u_id options), s)
      | Some timer \<Rightarrow>
          let t1 = (case u_title options of
                      Some v \<Rightarrow> timer\<lparr>at_title := v\<rparr> | None \<Rightarrow> timer);
              t2 = (case u_subtitle options of
                      Some v \<Rightarrow> t1\<lparr>at_subtitle := Some v\<rparr> | None \<Rightarrow> t1);
              t3 = (case u_detail options of
                      Some v \<Rightarrow> t2\<lparr>at_detail := Some v\<rparr> | None \<Rightarrow> t2);
              t4 = (case u_endTime options of
                      Some e \<Rightarrow>
                        t3\<lparr>at_endTime := e,
                           at_remainingSeconds := (e - now) div 1000,
                           at_expired := ((e - now) div 1000 \<le> 0)\<rparr>
                    | None \<Rightarrow> t3);
              t5 = (case u_customData options of
                      Some v \<Rightarrow> t4\<lparr>at_customData := Some v\<rparr> | None \<Rightarrow> t4)
          in (Resolve (), s\<lparr>timers := AList.update (u_id options) t5 (timers s)\<rparr>))"

text \<open>\<open>if (intervalId)\<close> is false for an absent entry and for the handle 0.\<close>

definition web_endTimer ::
  "EndTimerOptions \<Rightarrow> time \<Rightarrow> web_state \<Rightarrow> unit call_result \<times> web_state \<times> effect list" where
  "web_endTimer options now s =
     (let s1 = (case map_of (timerIntervals s) (e_id options) of
                  Some intervalId \<Rightarrow>
                    if intervalId \<noteq> 0 then
                      s\<lparr>intervals := AList.delete intervalId (intervals s),
                        timerIntervals := AList.delete (e_id options) (timerIntervals s)\<rparr>
                    else s
                | None \<Rightarrow> s)
      in (Resolve (),
          s1\<lparr>timers := AList.delete (e_id options) (timers s1)\<rparr>,
          [Notify ''timerDismissed''
             [(''id'', JStr (e_id options)),
              (''eventType'', JStr ''dismissed''),
              (''type'', JStr ''generic''),
              (''title'', JStr []),
              (''timestamp'', JNum now)]]))"

definition web_endAllTimers :: "web_state \<Rightarrow> nat call_result \<times> web_state" where
  "web_endAllTimers s =
     (let count = length (timers s)
      in (Resolve count,
          s\<lparr>intervals := fold (\<lambda>p. AList.delete (snd p)) (timerIntervals s) (intervals s),
            timerIntervals := [],
            timers := []\<rparr>))"

text \<open>
  \<open>getActiveTimers\<close> writes the recomputed \<open>remainingSeconds\<close> and \<open>expired\<close> into the
  stored timer before it copies it.
\<close>

definition web_refresh :: "time \<Rightarrow> ActiveTimer \<Rightarrow> ActiveTimer" where
  "web_refresh now timer =
     timer\<lparr>at_remainingSeconds := (at_endTime timer - now) div 1000,
           at_expired := ((at_endTime timer - now) div 1000 \<le> 0)\<rparr>"

definition web_getActiveTimers ::
  "time \<Rightarrow> web_state \<Rightarrow> ActiveTimer list call_result \<times> web_state" where
  "web_getActiveTimers now s =
     (let ts = map (\<lambda>p. (fst p, web_refresh now (snd p))) (timers s)
      in (Resolve (map snd ts), s\<lparr>timers := ts\<rparr>))"

definition web_isTimerActive :: "string \<Rightarrow> web_state \<Rightarrow> bool call_result" where
  "web_isTimerActive i s =
     Resolve (case map_of (timers s) i of Some timer \<Rightarrow> \<not> at_expired timer | None \<Rightarrow> False)"

subsection \<open>Runs of the web implementation\<close>

datatype web_op =
    WStartTimer StartTimerOptions time
  | WUpdateTimer UpdateTimerOptions time
  | WEndTimer EndTimerOptions time
  | WEndAllTimers
  | WGetActiveTimers time
  | WInterval nat time

definition web_step :: "web_op \<Rightarrow> web_state \<Rightarrow> web_state \<times> effect list" where
  "web_step op s =
     (case op of
        WStartTimer options now \<Rightarrow> snd (web_startTimer options now s)
      | WUpdateTimer options now \<Rightarrow> (snd (web_updateTimer options now s), [])
      | WEndTimer options now \<Rightarrow> snd (web_endTimer options now s)
      | WEndAllTimers \<Rightarrow> (snd (web_endAllTimers s), [])
      | WGetActiveTimers now \<Rightarrow> (snd (web_getActiveTimers now s), [])
      | WInterval handle now \<Rightarrow> web_intervalFired handle now s)"

fun web_run :: "web_op list \<Rightarrow> web_state \<Rightarrow> web_state \<times> effect list" where
  "web_run [] s = (s, [])"
| "web_run (op # ops) s =
     (let r1 = web_step op s;
          r2 = web_run ops (fst r1)
      in (fst r2, snd r1 @ snd r2))"

section \<open>Observations used in the statements\<close>

text \<open>The names of the fields an event carries.\<close>

definition eventFields :: "effect \<Rightarrow> string list" where
  "eventFields e = (case e of Notify name data \<Rightarrow> map fst data | _ \<Rightarrow> [])"

text \<open>
  The iOS registry's expired flag of a timer id (\<open>timerMetadata[id].hasExpired\<close>), and
  the number of expirations the check can still fire for the id: one while the id has
  metadata that is not marked expired, none otherwise.
\<close>

definition expiredFlag :: "string \<Rightarrow> plugin_state \<Rightarrow> bool" where
  "expiredFlag i s =
     (case map_of (timerMetadata s) i of Some md \<Rightarrow> hasExpired md | None \<Rightarrow> False)"

definition pending :: "string \<Rightarrow> plugin_state \<Rightarrow> nat" where
  "pending i s =
     (case map_of (timerMetadata s) i of
        Some md \<Rightarrow> if hasExpired md then 0 else 1
      | None \<Rightarrow> 0)"

text \<open>A firing of the expiration check or an \<open>updateTimer\<close> call.\<close>

definition scanOrUpdate :: "ios_op \<Rightarrow> bool" where
  "scanOrUpdate op = (case op of Tick now \<Rightarrow> True | UpdateTimer call \<Rightarrow> True | _ \<Rightarrow> False)"

text \<open>The same observations on the web implementation's \<open>timers\<close> map.\<close>

definition webExpired :: "string \<Rightarrow> web_state \<Rightarrow> bool" where
  "webExpired i s =
     (case map_of (timers s) i of Some timer \<Rightarrow> at_expired timer | None \<Rightarrow> False)"

definition webPending :: "string \<Rightarrow> web_state \<Rightarrow> nat" where
  "webPending i s =
     (case map_of (timers s) i of
        Some timer \<Rightarrow> if at_expired timer then 0 else 1
      | None \<Rightarrow> 0)"

text \<open>A run of an interval callback, or an \<open>updateTimer\<close> call that supplies no \<open>endTime\<close>.\<close>

definition tickOrPlainUpdate :: "web_op \<Rightarrow> bool" where
  "tickOrPlainUpdate op =
     (case op of
        WInterval handle now \<Rightarrow> True
      | WUpdateTimer options now \<Rightarrow> u_endTime options = None
      | _ \<Rightarrow> False)"

text \<open>
  The life cycle of the repeating check on iOS: it exists exactly while an activity is
  registered, and without Live Activities nothing is ever registered.
\<close>

definition watchdogInv :: "bool \<Rightarrow> plugin_state \<Rightarrow> bool" where
  "watchdogInv avail s =
     ((expirationCheckTimer s = (activeTimers s \<noteq> []))
      \<and> (avail \<or> (activeTimers s = [] \<and> timerMetadata s = [])))"

text \<open>
  What may happen to a timer with end time \<open>e\<close> before it expires: a firing of the
  expiration check before \<open>e\<close>, or an \<open>updateTimer\<close> call.
\<close>

definition beforeEnd :: "time \<Rightarrow> ios_op \<Rightarrow> bool" where
  "beforeEnd e op = (case op of Tick now \<Rightarrow> now < e | UpdateTimer call \<Rightarrow> True | _ \<Rightarrow> False)"

text \<open>What the expiration check does to one metadata entry.\<close>

definition markExpired :: "time \<Rightarrow> TimerMetadata \<Rightarrow> TimerMetadata" where
  "markExpired now md =
     (if \<not> hasExpired md \<and> md_endTime md \<le> now then md\<lparr>hasExpired := True\<rparr> else md)"

text \<open>
  A timer whose expiration is still to come: the repeating check exists and the id's
  metadata is not marked expired.
\<close>

definition armed :: "string \<Rightarrow> TimerMetadata \<Rightarrow> plugin_state \<Rightarrow> bool" where
  "armed i md s =
     (distinct (map fst (timerMetadata s)) \<and> expirationCheckTimer s
      \<and> map_of (timerMetadata s) i = Some md \<and> \<not> hasExpired md)"

section \<open>Auxiliary facts\<close>

subsection \<open>Expiration events of a run on iOS\<close>

lemma expiredEvents_append: "expiredEvents i (xs @ ys) = expiredEvents i xs + expiredEvents i ys"
  by (simp add: expiredEvents_def)

lemma expiredEvents_Nil: "expiredEvents i [] = 0"
  by (simp add: expiredEvents_def)

lemma updateTimer_timerMetadata:
  "timerMetadata (fst (snd (updateTimer avail call s))) = timerMetadata s"
  by (simp add: updateTimer_def Let_def split: option.splits)

lemma updateTimer_no_expired_event:
  "expiredEvents i (snd (snd (updateTimer avail call s))) = 0"
  by (simp add: updateTimer_def Let_def expiredEvents_def isExpiredEventFor_def split: option.splits)

lemma updateActivityToComplete_timerMetadata:
  "timerMetadata (fst (updateActivityToComplete i now s)) = timerMetadata s"
  by (simp add: updateActivityToComplete_def Let_def split: option.splits)

lemma updateActivityToComplete_no_expired_event:
  "expiredEvents j (snd (updateActivityToComplete i now s)) = 0"
  by (simp add: updateActivityToComplete_def Let_def expiredEvents_def isExpiredEventFor_def split: option.splits)

lemma expireEntry_timerMetadata:
  "timerMetadata (fst (expireEntry avail now k md s)) =
     (if \<not> hasExpired md \<and> md_endTime md \<le> now
      then AList.update k (md\<lparr>hasExpired := True\<rparr>) (timerMetadata s)
      else timerMetadata s)"
  by (simp add: expireEntry_def Let_def updateActivityToComplete_timerMetadata)

lemma expireEntry_expiredEvents:
  "expiredEvents i (snd (expireEntry avail now k md s)) =
     (if i = k \<and> \<not> hasExpired md \<and> md_endTime md \<le> now then 1 else 0)"
proof -
  have "filter (isExpiredEventFor j) (snd (updateActivityToComplete k now s')) = []" for s' j
    using updateActivityToComplete_no_expired_event [of j k now s']
    by (simp add: expiredEvents_def)
  then show ?thesis
    by (simp add: expireEntry_def Let_def expiredEvents_def isExpiredEventFor_def)
qed

lemma expireEntry_budget:
  "map_of (timerMetadata s) k = Some md \<Longrightarrow>
   expiredEvents i (snd (expireEntry avail now k md s)) + pending i (fst (expireEntry avail now k md s))
     \<le> pending i s"
  by (simp add: expireEntry_expiredEvents pending_def expireEntry_timerMetadata update_conv')

lemma expireEntry_flag:
  "expiredFlag i s \<Longrightarrow> expiredFlag i (fst (expireEntry avail now k md s))"
  by (simp add: expiredFlag_def expireEntry_timerMetadata update_conv' split: option.splits)

lemma expireEntry_distinct:
  "distinct (map fst (timerMetadata s)) \<Longrightarrow>
   distinct (map fst (timerMetadata (fst (expireEntry avail now k md s))))"
  by (simp add: expireEntry_timerMetadata distinct_update)

lemma expireLoop_budget:
  "distinct (map fst l) \<Longrightarrow> (\<forall>p \<in> set l. map_of (timerMetadata s) (fst p) = Some (snd p)) \<Longrightarrow>
   expiredEvents i (snd (expireLoop avail now l s)) + pending i (fst (expireLoop avail now l s))
     \<le> pending i s"
proof (induction l arbitrary: s)
  case Nil
  then show ?case by (simp add: expiredEvents_Nil)
next
  case (Cons e es)
  let ?r1 = "expireEntry avail now (fst e) (snd e) s"
  have head: "map_of (timerMetadata s) (fst e) = Some (snd e)"
    using Cons.prems(2) by simp
  have step: "expiredEvents i (snd ?r1) + pending i (fst ?r1) \<le> pending i s"
    using expireEntry_budget [OF head] .
  have rest: "\<forall>p \<in> set es. map_of (timerMetadata (fst ?r1)) (fst p) = Some (snd p)"
  proof
    fix p assume p: "p \<in> set es"
    have "fst e \<notin> set (map fst es)" using Cons.prems(1) by simp
    moreover have "fst p \<in> set (map fst es)" using p by simp
    ultimately have "fst p \<noteq> fst e" by metis
    moreover have "map_of (timerMetadata s) (fst p) = Some (snd p)"
      using Cons.prems(2) p by simp
    ultimately show "map_of (timerMetadata (fst ?r1)) (fst p) = Some (snd p)"
      by (simp add: expireEntry_timerMetadata update_conv')
  qed
  have d: "distinct (map fst es)" using Cons.prems(1) by simp
  have ih: "expiredEvents i (snd (expireLoop avail now es (fst ?r1)))
              + pending i (fst (expireLoop avail now es (fst ?r1))) \<le> pending i (fst ?r1)"
    using Cons.IH [OF d rest] .
  show ?case using step ih by (simp add: Let_def expiredEvents_append)
qed

lemma checkForExpiredTimers_budget:
  assumes "distinct (map fst (timerMetadata s))"
  shows "expiredEvents i (snd (checkForExpiredTimers avail now s))
           + pending i (fst (checkForExpiredTimers avail now s)) \<le> pending i s"
  unfolding checkForExpiredTimers_def
  by (rule expireLoop_budget) (use assms in auto)

lemma expireLoop_flag:
  "expiredFlag i s \<Longrightarrow> expiredFlag i (fst (expireLoop avail now l s))"
  by (induction l arbitrary: s) (simp_all add: Let_def expireEntry_flag)

lemma expireLoop_distinct:
  "distinct (map fst (timerMetadata s)) \<Longrightarrow>
   distinct (map fst (timerMetadata (fst (expireLoop avail now l s))))"
  by (induction l arbitrary: s) (simp_all add: Let_def expireEntry_distinct)

lemma ios_step_distinct:
  "distinct (map fst (timerMetadata s)) \<Longrightarrow>
   distinct (map fst (timerMetadata (fst (ios_step avail op s))))"
  by (cases op)
     (auto simp: ios_step_def startTimer_def updateTimer_def endTimer_def endAllTimers_def
        handleActivityStateChange_def checkForExpiredTimers_def expireLoop_distinct
        startExpirationCheckTimer_def stopExpirationCheckTimer_def Let_def
        distinct_update distinct_delete
        split: option.splits sum.splits ActivityState.splits)

lemma ios_run_distinct:
  "distinct (map fst (timerMetadata s)) \<Longrightarrow>
   distinct (map fst (timerMetadata (fst (ios_run avail ops s))))"
  by (induction ops arbitrary: s) (simp_all add: Let_def ios_step_distinct)

lemma ios_run_distinct_initial:
  "distinct (map fst (timerMetadata (fst (ios_run avail pre initial_plugin))))"
  by (rule ios_run_distinct) (simp add: initial_plugin_def)

lemma ios_step_budget:
  "scanOrUpdate op \<Longrightarrow> distinct (map fst (timerMetadata s)) \<Longrightarrow>
   expiredEvents i (snd (ios_step avail op s)) + pending i (fst (ios_step avail op s)) \<le> pending i s"
proof (cases op)
  case (UpdateTimer call)
  have "pending i (fst (snd (updateTimer avail call s))) = pending i s"
    by (simp add: pending_def updateTimer_timerMetadata)
  then show ?thesis
    by (simp add: UpdateTimer ios_step_def updateTimer_no_expired_event)
next
  case (Tick now)
  assume "distinct (map fst (timerMetadata s))"
  then show ?thesis
    by (simp add: Tick ios_step_def checkForExpiredTimers_budget expiredEvents_Nil)
qed (simp_all add: scanOrUpdate_def)

lemma ios_step_flag:
  "scanOrUpdate op \<Longrightarrow> expiredFlag i s \<Longrightarrow> expiredFlag i (fst (ios_step avail op s))"
proof (cases op)
  case (UpdateTimer call)
  assume "expiredFlag i s"
  then have "expiredFlag i (fst (snd (updateTimer avail call s)))"
    by (simp add: expiredFlag_def updateTimer_timerMetadata)
  then show ?thesis by (simp add: UpdateTimer ios_step_def)
next
  case (Tick now)
  assume "expiredFlag i s"
  then show ?thesis
    by (simp add: Tick ios_step_def checkForExpiredTimers_def expireLoop_flag)
qed (simp_all add: scanOrUpdate_def)

lemma ios_run_budget:
  "\<forall>op \<in> set ops. scanOrUpdate op \<Longrightarrow> distinct (map fst (timerMetadata s)) \<Longrightarrow>
   expiredEvents i (snd (ios_run avail ops s)) + pending i (fst (ios_run avail ops s)) \<le> pending i s"
proof (induction ops arbitrary: s)
  case Nil
  then show ?case by (simp add: expiredEvents_Nil)
next
  case (Cons op ops)
  have a: "expiredEvents i (snd (ios_step avail op s)) + pending i (fst (ios_step avail op s)) \<le> pending i s"
    using Cons.prems by (simp add: ios_step_budget)
  have b: "expiredEvents i (snd (ios_run avail ops (fst (ios_step avail op s))))
            + pending i (fst (ios_run avail ops (fst (ios_step avail op s))))
            \<le> pending i (fst (ios_step avail op s))"
    using Cons.prems by (intro Cons.IH) (simp_all add: ios_step_distinct)
  show ?case using a b by (simp add: Let_def expiredEvents_append)
qed

lemma ios_run_flag:
  "\<forall>op \<in> set ops. scanOrUpdate op \<Longrightarrow> expiredFlag i s \<Longrightarrow> expiredFlag i (fst (ios_run avail ops s))"
  by (induction ops arbitrary: s) (simp_all add: Let_def ios_step_flag)

lemma pending_le_1: "pending i s \<le> 1"
  by (simp add: pending_def split: option.splits)

lemma pending_flag: "expiredFlag i s \<Longrightarrow> pending i s = 0"
  by (auto simp: pending_def expiredFlag_def split: option.splits)

subsection \<open>Expiration events of a run on the web\<close>

lemma web_intervalFired_keeps_expired:
  "webExpired i s \<Longrightarrow> webExpired i (fst (web_intervalFired h now s))"
  by (auto simp: webExpired_def web_intervalFired_def Let_def update_conv' split: option.splits)

lemma web_updateTimer_plain_expired:
  "u_endTime options = None \<Longrightarrow>
   webExpired i (snd (web_updateTimer options now s)) = webExpired i s"
  by (auto simp: webExpired_def web_updateTimer_def Let_def update_conv' split: option.splits)

lemma web_updateTimer_endTime_expired:
  "u_endTime options = Some e \<Longrightarrow> map_of (timers s) (u_id options) = Some t \<Longrightarrow>
   webExpired (u_id options) (snd (web_updateTimer options now s)) = ((e - now) div 1000 \<le> 0)"
  by (auto simp: webExpired_def web_updateTimer_def Let_def update_conv' split: option.splits)

lemma web_intervalFired_budget:
  "expiredEvents i (snd (web_intervalFired h now s)) + webPending i (fst (web_intervalFired h now s))
     \<le> webPending i s"
  by (auto simp: webPending_def web_intervalFired_def Let_def update_conv' expiredEvents_def
        isExpiredEventFor_def split: option.splits)

lemma web_updateTimer_plain_pending:
  "u_endTime options = None \<Longrightarrow>
   webPending i (snd (web_updateTimer options now s)) = webPending i s"
  by (auto simp: webPending_def web_updateTimer_def Let_def update_conv' split: option.splits)

lemma web_step_budget:
  "tickOrPlainUpdate op \<Longrightarrow>
   expiredEvents i (snd (web_step op s)) + webPending i (fst (web_step op s)) \<le> webPending i s"
proof (cases op)
  case (WUpdateTimer options now)
  assume "tickOrPlainUpdate op"
  then have "u_endTime options = None" by (simp add: WUpdateTimer tickOrPlainUpdate_def)
  then show ?thesis
    by (simp add: WUpdateTimer web_step_def web_updateTimer_plain_pending expiredEvents_Nil)
next
  case (WInterval h now)
  then show ?thesis by (simp add: web_step_def web_intervalFired_budget)
qed (simp_all add: tickOrPlainUpdate_def)

lemma web_run_budget:
  "list_all tickOrPlainUpdate ops \<Longrightarrow>
   expiredEvents i (snd (web_run ops s)) + webPending i (fst (web_run ops s)) \<le> webPending i s"
proof (induction ops arbitrary: s)
  case Nil
  then show ?case by (simp add: expiredEvents_Nil)
next
  case (Cons op ops)
  have a: "expiredEvents i (snd (web_step op s)) + webPending i (fst (web_step op s)) \<le> webPending i s"
    using Cons.prems by (simp add: web_step_budget)
  have b: "expiredEvents i (snd (web_run ops (fst (web_step op s))))
            + webPending i (fst (web_run ops (fst (web_step op s))))
            \<le> webPending i (fst (web_step op s))"
    using Cons.prems by (intro Cons.IH) simp
  show ?case using a b by (simp add: Let_def expiredEvents_append)
qed

lemma webPending_le_1: "webPending i s \<le> 1"
  by (simp add: webPending_def split: option.splits)

subsection \<open>Effects of an expiration\<close>

lemma expireEntry_haptic:
  "\<not> hasExpired md \<Longrightarrow> md_endTime md \<le> now \<Longrightarrow> hapticOnExpire md \<Longrightarrow>
   Haptic \<in> set (snd (expireEntry avail now k md s))"
  by (simp add: expireEntry_def Let_def)

lemma expireEntry_sound:
  "\<not> hasExpired md \<Longrightarrow> md_endTime md \<le> now \<Longrightarrow> soundOnExpire md \<Longrightarrow>
   Sound \<in> set (snd (expireEntry avail now k md s))"
  by (simp add: expireEntry_def Let_def)

lemma expireLoop_haptic:
  "(k, md) \<in> set l \<Longrightarrow> \<not> hasExpired md \<Longrightarrow> md_endTime md \<le> now \<Longrightarrow> hapticOnExpire md \<Longrightarrow>
   Haptic \<in> set (snd (expireLoop avail now l s))"
proof (induction l arbitrary: s)
  case Nil
  then show ?case by simp
next
  case (Cons e es)
  show ?case
  proof (cases "e = (k, md)")
    case True
    then show ?thesis using Cons.prems expireEntry_haptic [of md now avail k s]
      by (simp add: Let_def)
  next
    case False
    then have "(k, md) \<in> set es" using Cons.prems(1) by auto
    then show ?thesis using Cons.IH Cons.prems by (simp add: Let_def)
  qed
qed

lemma expireLoop_sound:
  "(k, md) \<in> set l \<Longrightarrow> \<not> hasExpired md \<Longrightarrow> md_endTime md \<le> now \<Longrightarrow> soundOnExpire md \<Longrightarrow>
   Sound \<in> set (snd (expireLoop avail now l s))"
proof (induction l arbitrary: s)
  case Nil
  then show ?case by simp
next
  case (Cons e es)
  show ?case
  proof (cases "e = (k, md)")
    case True
    then show ?thesis using Cons.prems expireEntry_sound [of md now avail k s]
      by (simp add: Let_def)
  next
    case False
    then have "(k, md) \<in> set es" using Cons.prems(1) by auto
    then show ?thesis using Cons.IH Cons.prems by (simp add: Let_def)
  qed
qed

lemma startTimer_success_state:
  assumes "getString ''id'' call = Some i" "getString ''title'' call = Some ttl"
    "getDouble ''endTime'' call = Some e"
  shows "map_of (timerMetadata (fst (snd (startTimer True call (Inr token) s)))) i =
           Some \<lparr>md_endTime = e,
                 hapticOnExpire = orElse (getBool ''hapticOnExpire'' call) True,
                 soundOnExpire = orElse (getBool ''soundOnExpire'' call) True,
                 hasExpired = False\<rparr>"
    and "expirationCheckTimer (fst (snd (startTimer True call (Inr token) s)))"
  using assms
  by (simp_all add: startTimer_def Let_def update_conv' startExpirationCheckTimer_def)

subsection \<open>The life cycle of the repeating check\<close>

lemma updateActivityToComplete_frame:
  "(activeTimers (fst (updateActivityToComplete i now s)) = []) = (activeTimers s = [])"
  "expirationCheckTimer (fst (updateActivityToComplete i now s)) = expirationCheckTimer s"
  by (auto simp: updateActivityToComplete_def getActivity_def Let_def split: option.splits)

lemma expireEntry_frame:
  "(activeTimers (fst (expireEntry avail now k md s)) = []) = (activeTimers s = [])"
  "expirationCheckTimer (fst (expireEntry avail now k md s)) = expirationCheckTimer s"
  by (simp_all add: expireEntry_def Let_def updateActivityToComplete_frame)

lemma expireLoop_frame:
  "(activeTimers (fst (expireLoop avail now l s)) = []) = (activeTimers s = [])"
  "expirationCheckTimer (fst (expireLoop avail now l s)) = expirationCheckTimer s"
  by (induction l arbitrary: s) (simp_all add: Let_def expireEntry_frame)

lemma startTimer_inv:
  "watchdogInv avail s \<Longrightarrow> watchdogInv avail (fst (snd (startTimer avail call request s)))"
  by (auto simp: watchdogInv_def startTimer_def Let_def startExpirationCheckTimer_def
        split: option.splits sum.splits)

lemma updateTimer_inv:
  "watchdogInv avail s \<Longrightarrow> watchdogInv avail (fst (snd (updateTimer avail call s)))"
  by (auto simp: watchdogInv_def updateTimer_def getActivity_def Let_def split: option.splits)

lemma endTimer_inv:
  "watchdogInv avail s \<Longrightarrow> watchdogInv avail (fst (snd (endTimer avail call now s)))"
  by (auto simp: watchdogInv_def endTimer_def Let_def stopExpirationCheckTimer_def
        split: option.splits)

lemma endAllTimers_inv:
  "watchdogInv avail s \<Longrightarrow> watchdogInv avail (fst (snd (endAllTimers avail s)))"
  by (auto simp: watchdogInv_def endAllTimers_def Let_def stopExpirationCheckTimer_def)

lemma handleActivityStateChange_inv:
  "watchdogInv avail s \<Longrightarrow> watchdogInv avail (fst (handleActivityStateChange i state now s))"
  by (cases state)
     (auto simp: watchdogInv_def handleActivityStateChange_def Let_def stopExpirationCheckTimer_def)

lemma checkForExpiredTimers_inv:
  assumes "watchdogInv avail s"
  shows "watchdogInv avail (fst (checkForExpiredTimers avail now s))"
proof (cases avail)
  case True
  then show ?thesis using assms
    by (simp add: watchdogInv_def checkForExpiredTimers_def expireLoop_frame)
next
  case False
  then have "timerMetadata s = []" using assms by (simp add: watchdogInv_def)
  then show ?thesis using assms by (simp add: checkForExpiredTimers_def)
qed

lemma ios_step_inv:
  "watchdogInv avail s \<Longrightarrow> watchdogInv avail (fst (ios_step avail op s))"
  by (cases op)
     (simp_all add: ios_step_def startTimer_inv updateTimer_inv endTimer_inv endAllTimers_inv
        handleActivityStateChange_inv checkForExpiredTimers_inv)

lemma ios_run_inv:
  "watchdogInv avail s \<Longrightarrow> watchdogInv avail (fst (ios_run avail ops s))"
  by (induction ops arbitrary: s) (simp_all add: Let_def ios_step_inv)

lemma ios_run_inv_initial: "watchdogInv avail (fst (ios_run avail ops initial_plugin))"
  by (rule ios_run_inv) (simp add: watchdogInv_def initial_plugin_def)

lemma fold_clear_intervals:
  "map_of (fold (\<lambda>p. AList.delete (snd p)) l ivs) h =
     (if h \<in> snd ` set l then None else map_of ivs h)"
  by (induction l arbitrary: ivs) (auto simp: delete_conv')

lemma ios_endAllTimers_reachable:
  "let s = fst (ios_run avail ops initial_plugin); r = endAllTimers avail s
   in fst r = Resolve (length (activeTimers s))
      \<and> activeTimers (fst (snd r)) = [] \<and> timerMetadata (fst (snd r)) = []
      \<and> \<not> expirationCheckTimer (fst (snd r))
      \<and> (activeTimers s = [] \<longrightarrow>
           fst r = Resolve 0 \<and> activeTimers (fst (snd r)) = activeTimers s
           \<and> \<not> expirationCheckTimer s \<and> \<not> expirationCheckTimer (fst (snd r)))"
  using ios_run_inv_initial [of avail ops]
  by (auto simp: watchdogInv_def endAllTimers_def Let_def stopExpirationCheckTimer_def)

lemma web_endAllTimers_result:
  "let r = web_endAllTimers w
   in fst r = Resolve (length (timers w))
      \<and> timers (snd r) = [] \<and> timerIntervals (snd r) = []
      \<and> list_all (\<lambda>p. map_of (intervals (snd r)) (snd p) = None) (timerIntervals w)
      \<and> (\<forall>h. h \<notin> snd ` set (timerIntervals w) \<longrightarrow>
            map_of (intervals (snd r)) h = map_of (intervals w) h)"
  by (simp add: web_endAllTimers_def Let_def fold_clear_intervals list_all_iff)

subsection \<open>The merge of updateTimer\<close>





subsection \<open>A timer stays armed until its end time\<close>

lemma expireLoop_lookup:
  "distinct (map fst l) \<Longrightarrow> (\<forall>p \<in> set l. map_of (timerMetadata s) (fst p) = Some (snd p)) \<Longrightarrow>
   map_of (timerMetadata (fst (expireLoop avail now l s))) i =
     (if i \<in> fst ` set l then map_option (markExpired now) (map_of (timerMetadata s) i)
      else map_of (timerMetadata s) i)"
proof (induction l arbitrary: s)
  case Nil
  then show ?case by simp
next
  case (Cons e es)
  let ?r1 = "expireEntry avail now (fst e) (snd e) s"
  have head: "map_of (timerMetadata s) (fst e) = Some (snd e)"
    using Cons.prems(2) by simp
  have notin: "fst e \<notin> fst ` set es" using Cons.prems(1) by simp
  have rest: "\<forall>p \<in> set es. map_of (timerMetadata (fst ?r1)) (fst p) = Some (snd p)"
  proof
    fix p assume p: "p \<in> set es"
    then have "fst p \<noteq> fst e" using notin by (metis imageI)
    moreover have "map_of (timerMetadata s) (fst p) = Some (snd p)"
      using Cons.prems(2) p by simp
    ultimately show "map_of (timerMetadata (fst ?r1)) (fst p) = Some (snd p)"
      by (simp add: expireEntry_timerMetadata update_conv')
  qed
  have d: "distinct (map fst es)" using Cons.prems(1) by simp
  have ih: "map_of (timerMetadata (fst (expireLoop avail now es (fst ?r1)))) i =
     (if i \<in> fst ` set es then map_option (markExpired now) (map_of (timerMetadata (fst ?r1)) i)
      else map_of (timerMetadata (fst ?r1)) i)"
    using Cons.IH [OF d rest] .
  show ?case
  proof (cases "i = fst e")
    case True
    then have "i \<notin> fst ` set es" using notin by simp
    then show ?thesis using ih True head
      by (simp add: Let_def expireEntry_timerMetadata update_conv' markExpired_def)
  next
    case False
    then have "map_of (timerMetadata (fst ?r1)) i = map_of (timerMetadata s) i"
      by (simp add: expireEntry_timerMetadata update_conv')
    then show ?thesis using ih False by (simp add: Let_def)
  qed
qed

lemma checkForExpiredTimers_lookup:
  assumes "distinct (map fst (timerMetadata s))"
  shows "map_of (timerMetadata (fst (checkForExpiredTimers avail now s))) i =
           map_option (markExpired now) (map_of (timerMetadata s) i)"
proof -
  have "map_of (timerMetadata (fst (expireLoop avail now (timerMetadata s) s))) i =
     (if i \<in> fst ` set (timerMetadata s)
      then map_option (markExpired now) (map_of (timerMetadata s) i)
      else map_of (timerMetadata s) i)"
    by (rule expireLoop_lookup) (use assms in auto)
  moreover have "map_of (timerMetadata s) i = None" if "i \<notin> fst ` set (timerMetadata s)"
    using that by (simp add: map_of_eq_None_iff)
  ultimately show ?thesis by (auto simp: checkForExpiredTimers_def)
qed

lemma updateTimer_expirationCheckTimer:
  "expirationCheckTimer (fst (snd (updateTimer avail call s))) = expirationCheckTimer s"
  by (simp add: updateTimer_def Let_def split: option.splits)

lemma ios_step_armed:
  assumes "beforeEnd (md_endTime md) op" "armed i md s"
  shows "armed i md (fst (ios_step avail op s))"
proof (cases op)
  case (UpdateTimer call)
  then show ?thesis using assms(2)
    by (simp add: armed_def ios_step_def updateTimer_timerMetadata updateTimer_expirationCheckTimer)
next
  case (Tick now)
  then have early: "now < md_endTime md" using assms(1) by (simp add: beforeEnd_def)
  have d: "distinct (map fst (timerMetadata s))" using assms(2) by (simp add: armed_def)
  have "map_of (timerMetadata (fst (checkForExpiredTimers avail now s))) i = Some md"
    using checkForExpiredTimers_lookup [OF d, of avail now i] assms(2) early
    by (simp add: armed_def markExpired_def)
  moreover have "expirationCheckTimer (fst (checkForExpiredTimers avail now s))"
    using assms(2) by (simp add: armed_def checkForExpiredTimers_def expireLoop_frame)
  moreover have "distinct (map fst (timerMetadata (fst (checkForExpiredTimers avail now s))))"
    using d by (simp add: checkForExpiredTimers_def expireLoop_distinct)
  ultimately show ?thesis using assms(2) Tick by (simp add: armed_def ios_step_def)
qed (use assms(1) in \<open>simp_all add: beforeEnd_def\<close>)

lemma ios_run_armed:
  "list_all (beforeEnd (md_endTime md)) ops \<Longrightarrow> armed i md s \<Longrightarrow>
   armed i md (fst (ios_run avail ops s))"
  by (induction ops arbitrary: s) (simp_all add: Let_def ios_step_armed)

lemma armed_tick_haptic:
  assumes "armed i md s" "md_endTime md \<le> now" "hapticOnExpire md"
  shows "Haptic \<in> set (snd (ios_step avail (Tick now) s))"
proof -
  have "(i, md) \<in> set (timerMetadata s)"
    using assms(1) by (simp add: armed_def map_of_SomeD)
  then show ?thesis
    using assms expireLoop_haptic [of i md "timerMetadata s" now avail s]
    by (simp add: armed_def ios_step_def checkForExpiredTimers_def)
qed

lemma armed_tick_sound:
  assumes "armed i md s" "md_endTime md \<le> now" "soundOnExpire md"
  shows "Sound \<in> set (snd (ios_step avail (Tick now) s))"
proof -
  have "(i, md) \<in> set (timerMetadata s)"
    using assms(1) by (simp add: armed_def map_of_SomeD)
  then show ?thesis
    using assms expireLoop_sound [of i md "timerMetadata s" now avail s]
    by (simp add: armed_def ios_step_def checkForExpiredTimers_def)
qed

lemma startTimer_armed:
  assumes "getString ''id'' call = Some i" "getString ''title'' call = Some ttl"
    "getDouble ''endTime'' call = Some e" "distinct (map fst (timerMetadata s))"
  shows "armed i \<lparr>md_endTime = e,
                 hapticOnExpire = orElse (getBool ''hapticOnExpire'' call) True,
                 soundOnExpire = orElse (getBool ''soundOnExpire'' call) True,
                 hasExpired = False\<rparr>
           (fst (snd (startTimer True call (Inr token) s)))"
  using startTimer_success_state [OF assms(1-3), of token s]
    ios_step_distinct [OF assms(4), of True "StartTimer call (Inr token)"]
  by (simp add: armed_def ios_step_def)

subsection \<open>The listing on iOS\<close>

lemma listTimer_remainingSeconds:
  "at_remainingSeconds (listTimer now p) = max 0 (endTime (content_state (snd p)) - now) div 1000"
  by (simp add: listTimer_def Let_def)

lemma listTimer_remainingSeconds_nonneg: "0 \<le> at_remainingSeconds (listTimer now p)"
  by (simp add: listTimer_def Let_def)

lemma listTimer_expired:
  "at_expired (listTimer now p) = (endTime (content_state (snd p)) \<le> now)"
  by (simp add: listTimer_def Let_def)

lemma listTimer_startedAt:
  "at_startedAt (listTimer now p) = min now (endTime (content_state (snd p)))"
  by (simp add: listTimer_def Let_def)

subsection \<open>After endTimer the expiration check is silent\<close>

lemma endTimer_removes_metadata:
  assumes "getString ''id'' call = Some i" "getActivity i s = Some a"
  shows "map_of (timerMetadata (fst (snd (endTimer True call now s)))) i = None"
    and "getActivity i (fst (snd (endTimer True call now s))) = None"
  using assms
  by (simp_all add: endTimer_def Let_def delete_conv' getActivity_def stopExpirationCheckTimer_def)

lemma endTimer_distinct:
  "distinct (map fst (timerMetadata s)) \<Longrightarrow>
   distinct (map fst (timerMetadata (fst (snd (endTimer avail call now s)))))"
  using ios_step_distinct [of s avail "EndTimer call now"] by (simp add: ios_step_def)

lemma endTimer_silences_check:
  assumes "getString ''id'' call = Some i" "getActivity i s = Some a"
    and "distinct (map fst (timerMetadata s))" "list_all scanOrUpdate ops"
  shows "expiredEvents i (snd (ios_run True ops (fst (snd (endTimer True call now s))))) = 0"
proof -
  let ?s' = "fst (snd (endTimer True call now s))"
  have "pending i ?s' = 0"
    using endTimer_removes_metadata(1) [OF assms(1,2)] by (simp add: pending_def)
  moreover have "\<forall>op \<in> set ops. scanOrUpdate op"
    using assms(4) by (simp add: list_all_iff)
  ultimately show ?thesis
    using ios_run_budget [of ops ?s' i True] endTimer_distinct [OF assms(3)] by simp
qed

subsection \<open>Evaluating the handlers on concrete calls\<close>

lemmas ios_eval =
  ios_step_def startTimer_def updateTimer_def endTimer_def endAllTimers_def
  checkForExpiredTimers_def expireEntry_def updateActivityToComplete_def
  handleActivityStateChange_def getActivity_def getActiveTimers_def listTimer_def
  isTimerActive_def startExpirationCheckTimer_def stopExpirationCheckTimer_def
  initial_plugin_def getString_def getDouble_def getBool_def getObject_def orElse_def
  iconForType_def colorForType_def expiredFlag_def scanOrUpdate_def

lemmas web_eval =
  web_step_def web_startTimer_def web_intervalFired_def web_updateTimer_def
  web_endTimer_def web_endAllTimers_def web_getActiveTimers_def web_refresh_def
  web_isTimerActive_def initial_web_def optData_def webExpired_def tickOrPlainUpdate_def

lemmas obs_eval = expiredEvents_def isExpiredEventFor_def eventFields_def Let_def

section \<open>The claims\<close>

subsection \<open>C1: updateTimer and the pending expiration\<close>

text \<open>
  Claim C1 says that \<open>updateTimer\<close> with a new \<open>endTime\<close>, called before the timer has
  expired, cancels the expiration pending at the old end time. On iOS it does not: the
  handler rewrites the activity's content and leaves \<open>timerMetadata\<close> alone, and the
  expiration check reads the end time from \<open>timerMetadata\<close>. A timer started with end
  time 2000 and moved to 11000 while still active has the old end time in its metadata
  and the new one in its content; the check at time 2000 marks it expired, requests the
  haptic and the sound and sends one \<open>timerExpired\<close> event for it. The web
  implementation, given the same calls, sends no event at time 2000.
\<close>

theorem updateTimer_keeps_old_expiration_pending:
  "isTimerActive True [(''id'', JStr ''t1'')] 1000
     (fst (ios_run True
        [StartTimer [(''id'', JStr ''t1''), (''title'', JStr ''A''), (''endTime'', JNum 2000)]
           (Inr ''tok'')] initial_plugin)) = Resolve True
   \<and> map_option md_endTime (map_of (timerMetadata (fst (ios_run True
        [StartTimer [(''id'', JStr ''t1''), (''title'', JStr ''A''), (''endTime'', JNum 2000)]
           (Inr ''tok''),
         UpdateTimer [(''id'', JStr ''t1''), (''endTime'', JNum 11000)]] initial_plugin)))
        ''t1'') = Some 2000
   \<and> map_option (\<lambda>a. endTime (content_state a)) (getActivity ''t1'' (fst (ios_run True
        [StartTimer [(''id'', JStr ''t1''), (''title'', JStr ''A''), (''endTime'', JNum 2000)]
           (Inr ''tok''),
         UpdateTimer [(''id'', JStr ''t1''), (''endTime'', JNum 11000)]] initial_plugin)))
        = Some 11000
   \<and> snd (ios_run True
        [StartTimer [(''id'', JStr ''t1''), (''title'', JStr ''A''), (''endTime'', JNum 2000)]
           (Inr ''tok''),
         UpdateTimer [(''id'', JStr ''t1''), (''endTime'', JNum 11000)],
         Tick 2000] initial_plugin)
      = [ActivityUpdate ''t1''
           \<lparr>title = ''A'', subtitle = [], detail = [], endTime = 11000, customData = []\<rparr>
           (Some 71000),
         Haptic, Sound,
         Notify ''timerExpired''
           [(''id'', JStr ''t1''), (''eventType'', JStr ''expired''),
            (''timestamp'', JNum 2000)],
         ActivityUpdate ''t1''
           \<lparr>title = ''A - Complete'', subtitle = [], detail = ''Timer finished'',
            endTime = 2000, customData = []\<rparr>
           None]
   \<and> expiredFlag ''t1'' (fst (ios_run True
        [StartTimer [(''id'', JStr ''t1''), (''title'', JStr ''A''), (''endTime'', JNum 2000)]
           (Inr ''tok''),
         UpdateTimer [(''id'', JStr ''t1''), (''endTime'', JNum 11000)],
         Tick 2000] initial_plugin))
   \<and> snd (web_run
        [WStartTimer
           \<lparr>o_id = ''t1'', o_type = ''cri'', o_title = ''A'', o_subtitle = None,
            o_detail = None, o_endTime = 2000, o_icon = None, o_accentColor = None,
            o_hapticOnExpire = None, o_soundOnExpire = None, o_customData = None\<rparr> 0,
         WUpdateTimer
           \<lparr>u_id = ''t1'', u_title = None, u_subtitle = None, u_detail = None,
            u_endTime = Some 11000, u_customData = None\<rparr> 1000,
         WInterval 1 2000] initial_web) = []"
  by (simp add: ios_eval web_eval obs_eval)

subsection \<open>C2: the fields of a timerExpired event\<close>

text \<open>
  Claim C2 says that every \<open>timerExpired\<close> event carries \<open>id\<close>, \<open>eventType\<close>, \<open>type\<close>,
  \<open>title\<close>, \<open>customData\<close> and a timestamp, as the \<open>TimerEvent\<close> interface declares. The
  event the iOS expiration check sends for an expired timer carries \<open>id\<close>, \<open>eventType\<close>
  and \<open>timestamp\<close> only, and so does the one the activity state handler sends; the event
  of the web implementation carries all six.
\<close>

theorem ios_timerExpired_event_lacks_type_title_customData:
  "map eventFields (filter (isExpiredEventFor ''t1'') (snd (ios_run True
        [StartTimer
           [(''id'', JStr ''t1''), (''type'', JStr ''cri''), (''title'', JStr ''A''),
            (''endTime'', JNum 2000), (''customData'', JObj [(''drugId'', ''fentanyl'')])]
           (Inr ''tok''),
         Tick 2000] initial_plugin)))
     = [[''id'', ''eventType'', ''timestamp'']]
   \<and> map eventFields (snd (handleActivityStateChange ''t1'' ended 2000 (fst (ios_run True
        [StartTimer
           [(''id'', JStr ''t1''), (''type'', JStr ''cri''), (''title'', JStr ''A''),
            (''endTime'', JNum 2000), (''customData'', JObj [(''drugId'', ''fentanyl'')])]
           (Inr ''tok'')] initial_plugin))))
     = [[''id'', ''eventType'', ''timestamp'']]
   \<and> map eventFields (filter (isExpiredEventFor ''t1'') (snd (web_run
        [WStartTimer
           \<lparr>o_id = ''t1'', o_type = ''cri'', o_title = ''A'', o_subtitle = None,
            o_detail = None, o_endTime = 2000, o_icon = None, o_accentColor = None,
            o_hapticOnExpire = None, o_soundOnExpire = None,
            o_customData = Some [(''drugId'', ''fentanyl'')]\<rparr> 0,
         WInterval 1 2000] initial_web)))
     = [[''id'', ''eventType'', ''type'', ''title'', ''customData'', ''timestamp'']]"
  by (simp add: ios_eval web_eval obs_eval)

subsection \<open>C3: the expired flag and the number of expiration events\<close>

text \<open>
  Claim C3 says that an expired flag, once true, is never set back by a scan or by an
  update, also one that extends \<open>endTime\<close> past now, and that \<open>timerExpired\<close> fires at
  most once per id. The web implementation does otherwise: \<open>updateTimer\<close> with an
  \<open>endTime\<close> assigns \<open>expired\<close> anew from the remaining time. A timer that expired at 2000
  and is moved to 20000 has \<open>expired\<close> false again, and its interval sends a second
  \<open>timerExpired\<close> event at 20000.
\<close>

theorem web_update_unexpires_and_event_fires_again:
  "webExpired ''t1'' (fst (web_run
        [WStartTimer
           \<lparr>o_id = ''t1'', o_type = ''cri'', o_title = ''A'', o_subtitle = None,
            o_detail = None, o_endTime = 2000, o_icon = None, o_accentColor = None,
            o_hapticOnExpire = None, o_soundOnExpire = None, o_customData = None\<rparr> 0,
         WInterval 1 2000] initial_web))
   \<and> \<not> webExpired ''t1'' (fst (web_run
        [WStartTimer
           \<lparr>o_id = ''t1'', o_type = ''cri'', o_title = ''A'', o_subtitle = None,
            o_detail = None, o_endTime = 2000, o_icon = None, o_accentColor = None,
            o_hapticOnExpire = None, o_soundOnExpire = None, o_customData = None\<rparr> 0,
         WInterval 1 2000,
         WUpdateTimer
           \<lparr>u_id = ''t1'', u_title = None, u_subtitle = None, u_detail = None,
            u_endTime = Some 20000, u_customData = None\<rparr> 3000] initial_web))
   \<and> expiredEvents ''t1'' (snd (web_run
        [WStartTimer
           \<lparr>o_id = ''t1'', o_type = ''cri'', o_title = ''A'', o_subtitle = None,
            o_detail = None, o_endTime = 2000, o_icon = None, o_accentColor = None,
            o_hapticOnExpire = None, o_soundOnExpire = None, o_customData = None\<rparr> 0,
         WInterval 1 2000,
         WUpdateTimer
           \<lparr>u_id = ''t1'', u_title = None, u_subtitle = None, u_detail = None,
            u_endTime = Some 20000, u_customData = None\<rparr> 3000,
         WInterval 1 20000] initial_web)) = 2"
  by (simp add: web_eval obs_eval)

text \<open>
  Claim C3 as amended. On iOS, in every state the plugin can reach, any sequence of
  expiration checks and \<open>updateTimer\<close> calls sends at most one \<open>timerExpired\<close> event for
  an id, and none once \<open>hasExpired\<close> is set for it, and it leaves a set \<open>hasExpired\<close> set.
  On the web, a run of an interval callback never resets \<open>expired\<close>, an \<open>updateTimer\<close>
  without \<open>endTime\<close> leaves it as it is, and any sequence of the two sends at most one
  \<open>timerExpired\<close> event for an id; an \<open>updateTimer\<close> that supplies \<open>endTime\<close> sets
  \<open>expired\<close> to whether the new end time is less than a second after the call.
\<close>

theorem expired_flag_kept_unless_endTime_updated:
  "(list_all scanOrUpdate ops \<longrightarrow>
      (let s = fst (ios_run avail pre initial_plugin); r = ios_run avail ops s
       in expiredEvents i (snd r) \<le> 1
          \<and> (expiredFlag i s \<longrightarrow> expiredFlag i (fst r) \<and> expiredEvents i (snd r) = 0)))
   \<and> (webExpired j w \<longrightarrow> webExpired j (fst (web_intervalFired h now w)))
   \<and> (u_endTime options = None \<longrightarrow>
        webExpired j (snd (web_updateTimer options now w)) = webExpired j w)
   \<and> (list_all tickOrPlainUpdate wops \<longrightarrow> expiredEvents j (snd (web_run wops w)) \<le> 1)
   \<and> (u_endTime options = Some e \<and> map_of (timers w) (u_id options) \<noteq> None \<longrightarrow>
        webExpired (u_id options) (snd (web_updateTimer options now w))
          = ((e - now) div 1000 \<le> 0))"
proof -
  let ?s = "fst (ios_run avail pre initial_plugin)"
  have ios: "expiredEvents i (snd (ios_run avail ops ?s)) \<le> 1
             \<and> (expiredFlag i ?s \<longrightarrow> expiredFlag i (fst (ios_run avail ops ?s))
                   \<and> expiredEvents i (snd (ios_run avail ops ?s)) = 0)"
    if ops: "list_all scanOrUpdate ops"
  proof -
    have all: "\<forall>op \<in> set ops. scanOrUpdate op" using ops by (simp add: list_all_iff)
    have bud: "expiredEvents i (snd (ios_run avail ops ?s)) + pending i (fst (ios_run avail ops ?s))
                 \<le> pending i ?s"
      using ios_run_budget [OF all ios_run_distinct_initial] .
    have one: "expiredEvents i (snd (ios_run avail ops ?s)) \<le> 1"
      using bud pending_le_1 [of i ?s] by linarith
    have zero: "expiredEvents i (snd (ios_run avail ops ?s)) = 0" if "expiredFlag i ?s"
      using bud pending_flag [OF that] by simp
    show ?thesis using one zero ios_run_flag [OF all] by blast
  qed
  have web1: "expiredEvents j (snd (web_run wops w)) \<le> 1" if "list_all tickOrPlainUpdate wops"
    using web_run_budget [OF that, of j w] webPending_le_1 [of j w] by linarith
  have web2: "webExpired (u_id options) (snd (web_updateTimer options now w))
                = ((e - now) div 1000 \<le> 0)"
    if "u_endTime options = Some e" "map_of (timers w) (u_id options) \<noteq> None"
    using that web_updateTimer_endTime_expired by blast
  show ?thesis
    using ios web1 web2 web_intervalFired_keeps_expired web_updateTimer_plain_expired
    by (simp add: Let_def)
qed

theorem expired_flag_kept_unless_endTime_updated_witness:
  "list_all scanOrUpdate [UpdateTimer [(''id'', JStr ''t1''), (''endTime'', JNum 11000)], Tick 11000]
   \<and> expiredFlag ''t1'' (fst (ios_run True
        [StartTimer [(''id'', JStr ''t1''), (''title'', JStr ''A''), (''endTime'', JNum 2000)]
           (Inr ''tok''),
         Tick 2000] initial_plugin))
   \<and> expiredFlag ''t1'' (fst (ios_run True
        [UpdateTimer [(''id'', JStr ''t1''), (''endTime'', JNum 11000)], Tick 11000]
        (fst (ios_run True
           [StartTimer [(''id'', JStr ''t1''), (''title'', JStr ''A''), (''endTime'', JNum 2000)]
              (Inr ''tok''),
            Tick 2000] initial_plugin))))
   \<and> expiredEvents ''t1'' (snd (ios_run True
        [UpdateTimer [(''id'', JStr ''t1''), (''endTime'', JNum 11000)], Tick 11000]
        (fst (ios_run True
           [StartTimer [(''id'', JStr ''t1''), (''title'', JStr ''A''), (''endTime'', JNum 2000)]
              (Inr ''tok''),
            Tick 2000] initial_plugin)))) = 0
   \<and> webExpired ''t1'' (fst (web_run
        [WStartTimer
           \<lparr>o_id = ''t1'', o_type = ''cri'', o_title = ''A'', o_subtitle = None,
            o_detail = None, o_endTime = 2000, o_icon = None, o_accentColor = None,
            o_hapticOnExpire = None, o_soundOnExpire = None, o_customData = None\<rparr> 0,
         WInterval 1 2000] initial_web))
   \<and> webExpired ''t1'' (fst (web_intervalFired 1 3000 (fst (web_run
        [WStartTimer
           \<lparr>o_id = ''t1'', o_type = ''cri'', o_title = ''A'', o_subtitle = None,
            o_detail = None, o_endTime = 2000, o_icon = None, o_accentColor = None,
            o_hapticOnExpire = None, o_soundOnExpire = None, o_customData = None\<rparr> 0,
         WInterval 1 2000] initial_web))))
   \<and> webExpired ''t1'' (snd (web_updateTimer
        \<lparr>u_id = ''t1'', u_title = Some ''B'', u_subtitle = None, u_detail = None,
         u_endTime = None, u_customData = None\<rparr> 3000 (fst (web_run
        [WStartTimer
           \<lparr>o_id = ''t1'', o_type = ''cri'', o_title = ''A'', o_subtitle = None,
            o_detail = None, o_endTime = 2000, o_icon = None, o_accentColor = None,
            o_hapticOnExpire = None, o_soundOnExpire = None, o_customData = None\<rparr> 0,
         WInterval 1 2000] initial_web))))
   \<and> list_all tickOrPlainUpdate [WInterval 1 1000, WInterval 1 2000, WInterval 1 3000]
   \<and> expiredEvents ''t1'' (snd (web_run [WInterval 1 1000, WInterval 1 2000, WInterval 1 3000]
        (fst (web_run
        [WStartTimer
           \<lparr>o_id = ''t1'', o_type = ''cri'', o_title = ''A'', o_subtitle = None,
            o_detail = None, o_endTime = 2000, o_icon = None, o_accentColor = None,
            o_hapticOnExpire = None, o_soundOnExpire = None, o_customData = None\<rparr> 0]
        initial_web)))) \<le> 1
   \<and> \<not> webExpired ''t1'' (snd (web_updateTimer
        \<lparr>u_id = ''t1'', u_title = None, u_subtitle = None, u_detail = None,
         u_endTime = Some 20000, u_customData = None\<rparr> 3000 (fst (web_run
        [WStartTimer
           \<lparr>o_id = ''t1'', o_type = ''cri'', o_title = ''A'', o_subtitle = None,
            o_detail = None, o_endTime = 2000, o_icon = None, o_accentColor = None,
            o_hapticOnExpire = None, o_soundOnExpire = None, o_customData = None\<rparr> 0,
         WInterval 1 2000] initial_web))))"
  using expired_flag_kept_unless_endTime_updated
          [of "[UpdateTimer [(''id'', JStr ''t1''), (''endTime'', JNum 11000)], Tick 11000]"
              True
              "[StartTimer [(''id'', JStr ''t1''), (''title'', JStr ''A''), (''endTime'', JNum 2000)]
                  (Inr ''tok''), Tick 2000]"
              "''t1''" "''t1''"
              "fst (web_run
                [WStartTimer
                   \<lparr>o_id = ''t1'', o_type = ''cri'', o_title = ''A'', o_subtitle = None,
                    o_detail = None, o_endTime = 2000, o_icon = None, o_accentColor = None,
                    o_hapticOnExpire = None, o_soundOnExpire = None, o_customData = None\<rparr> 0,
                 WInterval 1 2000] initial_web)"
              1 3000
              "\<lparr>u_id = ''t1'', u_title = Some ''B'', u_subtitle = None, u_detail = None,
                u_endTime = None, u_customData = None\<rparr>"
              "[]" 0]
        expired_flag_kept_unless_endTime_updated
          [of "[]" True "[]" "''t1''" "''t1''"
              "fst (web_run
                [WStartTimer
                   \<lparr>o_id = ''t1'', o_type = ''cri'', o_title = ''A'', o_subtitle = None,
                    o_detail = None, o_endTime = 2000, o_icon = None, o_accentColor = None,
                    o_hapticOnExpire = None, o_soundOnExpire = None, o_customData = None\<rparr> 0,
                 WInterval 1 2000] initial_web)"
              1 3000
              "\<lparr>u_id = ''t1'', u_title = None, u_subtitle = None, u_detail = None,
                u_endTime = Some 20000, u_customData = None\<rparr>"
              "[]" 20000]
        expired_flag_kept_unless_endTime_updated
          [of "[]" True "[]" "''t1''" "''t1''"
              "fst (web_run
                [WStartTimer
                   \<lparr>o_id = ''t1'', o_type = ''cri'', o_title = ''A'', o_subtitle = None,
                    o_detail = None, o_endTime = 2000, o_icon = None, o_accentColor = None,
                    o_hapticOnExpire = None, o_soundOnExpire = None, o_customData = None\<rparr> 0]
                initial_web)"
              1 3000
              "\<lparr>u_id = ''t1'', u_title = None, u_subtitle = None, u_detail = None,
                u_endTime = None, u_customData = None\<rparr>"
              "[WInterval 1 1000, WInterval 1 2000, WInterval 1 3000]" 0]
  by (simp add: ios_eval web_eval obs_eval)

subsection \<open>C4: events after endTimer\<close>

text \<open>
  Claim C4 says that after \<open>endTimer\<close> on a timer whose end time has not passed no
  \<open>timerExpired\<close> event ever fires for the id, and the listing leaves the id out. On iOS
  the listing does leave it out, and the expiration check stays silent for it
  (\<open>endTimer_silences_check\<close>). But \<open>endTimer\<close> ends the activity, and for the \<open>ended\<close>
  state that the system then reports the state handler sends \<open>timerExpired\<close> for the id,
  here 1900 ms before the end time.
\<close>

theorem ended_state_after_endTimer_fires_timerExpired:
  "getActiveTimers True 150 (fst (ios_run True
        [StartTimer [(''id'', JStr ''t1''), (''title'', JStr ''A''), (''endTime'', JNum 2000)]
           (Inr ''tok''),
         EndTimer [(''id'', JStr ''t1'')] 100] initial_plugin)) = Resolve []
   \<and> snd (ios_run True
        [StartTimer [(''id'', JStr ''t1''), (''title'', JStr ''A''), (''endTime'', JNum 2000)]
           (Inr ''tok''),
         EndTimer [(''id'', JStr ''t1'')] 100,
         StateChange ''t1'' ended 101] initial_plugin)
      = [ActivityEnd ''t1''
           (Some \<lparr>title = ''A'', subtitle = [], detail = [], endTime = 2000,
                  customData = []\<rparr>)
           default_policy,
         Notify ''timerDismissed''
           [(''id'', JStr ''t1''), (''eventType'', JStr ''dismissed''),
            (''timestamp'', JNum 100)],
         Notify ''timerExpired''
           [(''id'', JStr ''t1''), (''eventType'', JStr ''expired''),
            (''timestamp'', JNum 101)]]"
  by (simp add: ios_eval obs_eval)

subsection \<open>C5: startedAt\<close>

text \<open>
  Claim C5 says that every listing reports the same \<open>startedAt\<close> for an id, the time the
  record was created. The iOS listing stores no start time: it reports \<open>endTime\<close> minus
  the remaining time, which is the time of the call while the timer runs
  (\<open>listTimer_startedAt\<close>). A timer with end time 2000 is listed with \<open>startedAt\<close> 500 at
  time 500 and with \<open>startedAt\<close> 1500 at time 1500. The web implementation stores the
  creation time and reports it at both times.
\<close>

theorem ios_startedAt_is_the_time_of_the_listing:
  "getActiveTimers True 500 (fst (ios_run True
        [StartTimer [(''id'', JStr ''t1''), (''title'', JStr ''A''), (''endTime'', JNum 2000)]
           (Inr ''tok'')] initial_plugin))
     = Resolve [\<lparr>at_id = ''t1'', at_type = ''generic'', at_title = ''A'',
                 at_subtitle = Some [], at_detail = Some [], at_endTime = 2000,
                 at_remainingSeconds = 1, at_expired = False, at_startedAt = 500,
                 at_customData = Some []\<rparr>]
   \<and> getActiveTimers True 1500 (fst (ios_run True
        [StartTimer [(''id'', JStr ''t1''), (''title'', JStr ''A''), (''endTime'', JNum 2000)]
           (Inr ''tok'')] initial_plugin))
     = Resolve [\<lparr>at_id = ''t1'', at_type = ''generic'', at_title = ''A'',
                 at_subtitle = Some [], at_detail = Some [], at_endTime = 2000,
                 at_remainingSeconds = 0, at_expired = False, at_startedAt = 1500,
                 at_customData = Some []\<rparr>]
   \<and> map at_startedAt (case fst (web_getActiveTimers 500 (fst (web_run
        [WStartTimer
           \<lparr>o_id = ''t1'', o_type = ''cri'', o_title = ''A'', o_subtitle = None,
            o_detail = None, o_endTime = 2000, o_icon = None, o_accentColor = None,
            o_hapticOnExpire = None, o_soundOnExpire = None, o_customData = None\<rparr> 0]
        initial_web))) of Resolve ts \<Rightarrow> ts | Reject msg \<Rightarrow> []) = [0]
   \<and> map at_startedAt (case fst (web_getActiveTimers 1500 (fst (web_run
        [WStartTimer
           \<lparr>o_id = ''t1'', o_type = ''cri'', o_title = ''A'', o_subtitle = None,
            o_detail = None, o_endTime = 2000, o_icon = None, o_accentColor = None,
            o_hapticOnExpire = None, o_soundOnExpire = None, o_customData = None\<rparr> 0]
        initial_web))) of Resolve ts \<Rightarrow> ts | Reject msg \<Rightarrow> []) = [0]"
  by (simp add: ios_eval web_eval obs_eval)

subsection \<open>C6: remainingSeconds and expired in the listing\<close>

text \<open>
  Claim C6 says that the listing reports \<open>remainingSeconds\<close> as
  \<open>max(0, endTime - now)\<close> in whole seconds, never negative, and \<open>expired\<close> as
  \<open>remainingSeconds <= 0\<close>. The iOS listing floors the remaining time at zero
  (\<open>listTimer_remainingSeconds\<close>, \<open>listTimer_remainingSeconds_nonneg\<close>); the web listing
  does not: five seconds after the end time it reports \<open>remainingSeconds = -5\<close>. On iOS
  \<open>expired\<close> is taken from the remaining time before its fraction is dropped
  (\<open>listTimer_expired\<close>), so half a second before the end time the listing reports
  \<open>remainingSeconds = 0\<close> with \<open>expired = false\<close>.
\<close>

theorem web_listing_reports_negative_remainingSeconds:
  "fst (web_getActiveTimers 7000 (fst (web_run
        [WStartTimer
           \<lparr>o_id = ''t1'', o_type = ''cri'', o_title = ''A'', o_subtitle = None,
            o_detail = None, o_endTime = 2000, o_icon = None, o_accentColor = None,
            o_hapticOnExpire = None, o_soundOnExpire = None, o_customData = None\<rparr> 0]
        initial_web)))
     = Resolve [\<lparr>at_id = ''t1'', at_type = ''cri'', at_title = ''A'', at_subtitle = None,
                 at_detail = None, at_endTime = 2000, at_remainingSeconds = - 5,
                 at_expired = True, at_startedAt = 0, at_customData = None\<rparr>]
   \<and> map (\<lambda>t. (at_remainingSeconds t, at_expired t))
        (case getActiveTimers True 1500 (fst (ios_run True
           [StartTimer [(''id'', JStr ''t1''), (''title'', JStr ''A''), (''endTime'', JNum 2000)]
              (Inr ''tok'')] initial_plugin)) of Resolve ts \<Rightarrow> ts | Reject msg \<Rightarrow> [])
     = [(0, False)]"
  by (simp add: ios_eval web_eval obs_eval)

subsection \<open>C7: the outcome of startTimer\<close>

text \<open>
  Claim C7. On iOS \<open>startTimer\<close> rejects exactly when the platform is available and one
  of \<open>id\<close>, \<open>title\<close>, \<open>endTime\<close> is missing from the call. On a platform without Live
  Activities it resolves instead, with \<open>success = false\<close> and an error text, whatever the
  call holds. On every other call it resolves with a success flag: true when
  \<open>Activity.request\<close> returned an activity, false with the error's description when it
  threw.
\<close>

theorem startTimer_rejects_iff_required_field_missing:
  "((\<exists>msg. fst (startTimer avail call request s) = Reject msg) \<longleftrightarrow>
      avail \<and> (getString ''id'' call = None \<or> getString ''title'' call = None
               \<or> getDouble ''endTime'' call = None))
   \<and> (\<not> avail \<longrightarrow>
        (\<exists>r. fst (startTimer avail call request s) = Resolve r \<and> \<not> success r
             \<and> error r = Some ''Live Activities require iOS 16.2 or later''))
   \<and> (avail \<and> getString ''id'' call \<noteq> None \<and> getString ''title'' call \<noteq> None
        \<and> getDouble ''endTime'' call \<noteq> None \<longrightarrow>
        (\<exists>r. fst (startTimer avail call request s) = Resolve r
             \<and> (success r \<longleftrightarrow> (\<exists>token. request = Inr token))
             \<and> (\<forall>err. request = Inl err \<longrightarrow> error r = Some err)))"
  by (auto simp: startTimer_def Let_def split: option.splits sum.splits)

theorem startTimer_rejects_iff_required_field_missing_witness:
  "(\<exists>msg. fst (startTimer True [(''title'', JStr ''A''), (''endTime'', JNum 1000)]
                 (Inr ''tok'') initial_plugin) = Reject msg)
   \<and> (\<exists>r. fst (startTimer False [] (Inr ''tok'') initial_plugin) = Resolve r
          \<and> \<not> success r
          \<and> error r = Some ''Live Activities require iOS 16.2 or later'')
   \<and> (\<exists>r. fst (startTimer True
                 [(''id'', JStr ''t1''), (''title'', JStr ''A''), (''endTime'', JNum 1000)]
                 (Inl ''denied'') initial_plugin) = Resolve r
          \<and> \<not> success r \<and> error r = Some ''denied'')"
  using startTimer_rejects_iff_required_field_missing
          [of True "[(''title'', JStr ''A''), (''endTime'', JNum 1000)]"
              "Inr ''tok''" initial_plugin]
        startTimer_rejects_iff_required_field_missing
          [of False "[]" "Inr ''tok''" initial_plugin]
        startTimer_rejects_iff_required_field_missing
          [of True
              "[(''id'', JStr ''t1''), (''title'', JStr ''A''), (''endTime'', JNum 1000)]"
              "Inl ''denied''" initial_plugin]
  by (simp add: getString_def getDouble_def)

subsection \<open>C8: what updateTimer changes\<close>




subsection \<open>C9: endAllTimers\<close>

text \<open>
  Claim C9 says that \<open>endAllTimers\<close> removes every record, returns their number and
  never fails, and that on an empty registry it returns 0, leaves the registry as it was
  and leaves the Watchdog stopped. On iOS this holds in every state the plugin can reach
  (\<open>ios_endAllTimers_reachable\<close>). On the web \<open>endAllTimers\<close> clears the intervals
  whose handles \<open>timerIntervals\<close> holds and no other (\<open>web_endAllTimers_result\<close>), and
  \<open>startTimer\<close> overwrites an id's handle there without clearing the interval it ran.
  After \<open>t1\<close> is started twice and ended once the registry is empty and the interval
  of the first start is still running; \<open>endAllTimers\<close> resolves with 0 and leaves it
  running. When \<open>t1\<close> is started again, that interval sends the \<open>timerExpired\<close> event
  of the new timer, with the type and title of the first start.
\<close>

theorem web_endAllTimers_leaves_orphaned_interval_running:
  "timers (fst (web_run
        [WStartTimer
           \<lparr>o_id = ''t1'', o_type = ''cri'', o_title = ''A'', o_subtitle = None,
            o_detail = None, o_endTime = 2000, o_icon = None, o_accentColor = None,
            o_hapticOnExpire = None, o_soundOnExpire = None, o_customData = None\<rparr> 0,
         WStartTimer
           \<lparr>o_id = ''t1'', o_type = ''cpr'', o_title = ''B'', o_subtitle = None,
            o_detail = None, o_endTime = 3000, o_icon = None, o_accentColor = None,
            o_hapticOnExpire = None, o_soundOnExpire = None, o_customData = None\<rparr> 10,
         WEndTimer
           \<lparr>e_id = ''t1'', e_dismissalPolicy = None, e_dismissAfterSeconds = None,
            e_finalMessage = None\<rparr> 20] initial_web)) = []
   \<and> fst (web_endAllTimers (fst (web_run
        [WStartTimer
           \<lparr>o_id = ''t1'', o_type = ''cri'', o_title = ''A'', o_subtitle = None,
            o_detail = None, o_endTime = 2000, o_icon = None, o_accentColor = None,
            o_hapticOnExpire = None, o_soundOnExpire = None, o_customData = None\<rparr> 0,
         WStartTimer
           \<lparr>o_id = ''t1'', o_type = ''cpr'', o_title = ''B'', o_subtitle = None,
            o_detail = None, o_endTime = 3000, o_icon = None, o_accentColor = None,
            o_hapticOnExpire = None, o_soundOnExpire = None, o_customData = None\<rparr> 10,
         WEndTimer
           \<lparr>e_id = ''t1'', e_dismissalPolicy = None, e_dismissAfterSeconds = None,
            e_finalMessage = None\<rparr> 20] initial_web))) = Resolve 0
   \<and> map fst (intervals (snd (web_endAllTimers (fst (web_run
        [WStartTimer
           \<lparr>o_id = ''t1'', o_type = ''cri'', o_title = ''A'', o_subtitle = None,
            o_detail = None, o_endTime = 2000, o_icon = None, o_accentColor = None,
            o_hapticOnExpire = None, o_soundOnExpire = None, o_customData = None\<rparr> 0,
         WStartTimer
           \<lparr>o_id = ''t1'', o_type = ''cpr'', o_title = ''B'', o_subtitle = None,
            o_detail = None, o_endTime = 3000, o_icon = None, o_accentColor = None,
            o_hapticOnExpire = None, o_soundOnExpire = None, o_customData = None\<rparr> 10,
         WEndTimer
           \<lparr>e_id = ''t1'', e_dismissalPolicy = None, e_dismissAfterSeconds = None,
            e_finalMessage = None\<rparr> 20] initial_web))))) = [1]
   \<and> snd (web_run
        [WStartTimer
           \<lparr>o_id = ''t1'', o_type = ''cri'', o_title = ''A'', o_subtitle = None,
            o_detail = None, o_endTime = 2000, o_icon = None, o_accentColor = None,
            o_hapticOnExpire = None, o_soundOnExpire = None, o_customData = None\<rparr> 0,
         WStartTimer
           \<lparr>o_id = ''t1'', o_type = ''cpr'', o_title = ''B'', o_subtitle = None,
            o_detail = None, o_endTime = 3000, o_icon = None, o_accentColor = None,
            o_hapticOnExpire = None, o_soundOnExpire = None, o_customData = None\<rparr> 10,
         WEndTimer
           \<lparr>e_id = ''t1'', e_dismissalPolicy = None, e_dismissAfterSeconds = None,
            e_finalMessage = None\<rparr> 20,
         WEndAllTimers,
         WStartTimer
           \<lparr>o_id = ''t1'', o_type = ''fluid'', o_title = ''C'', o_subtitle = None,
            o_detail = None, o_endTime = 9000, o_icon = None, o_accentColor = None,
            o_hapticOnExpire = None, o_soundOnExpire = None, o_customData = None\<rparr> 5000,
         WInterval 1 9000] initial_web)
      = [Notify ''timerDismissed''
           [(''id'', JStr ''t1''), (''eventType'', JStr ''dismissed''),
            (''type'', JStr ''generic''), (''title'', JStr []), (''timestamp'', JNum 20)],
         Notify ''timerExpired''
           [(''id'', JStr ''t1''), (''eventType'', JStr ''expired''),
            (''type'', JStr ''cri''), (''title'', JStr ''A''),
            (''customData'', JUndefined), (''timestamp'', JNum 9000)]]"
  by (simp add: web_eval obs_eval)

subsection \<open>C10: the defaults of hapticOnExpire and soundOnExpire\<close>

text \<open>
  Claim C10. When a \<open>startTimer\<close> call on iOS passes the guards and the activity is
  created, an omitted \<open>hapticOnExpire\<close> is stored as true; it is still true after any
  firings of the expiration check before the end time and any \<open>updateTimer\<close> calls, and
  the first firing of the check at or after the end time requests the haptic. The same
  holds for \<open>soundOnExpire\<close> and the sound.
\<close>

theorem omitted_expire_flags_default_to_true:
  "getString ''id'' call = Some i \<and> getString ''title'' call = Some ttl
     \<and> getDouble ''endTime'' call = Some e \<and> list_all (beforeEnd e) early \<longrightarrow>
   (let s' = fst (ios_run True early
                (fst (snd (startTimer True call (Inr token)
                   (fst (ios_run True pre initial_plugin))))))
    in (getBool ''hapticOnExpire'' call = None \<longrightarrow>
          map_option hapticOnExpire (map_of (timerMetadata s') i) = Some True
          \<and> (\<forall>now. e \<le> now \<longrightarrow> Haptic \<in> set (snd (ios_step True (Tick now) s'))))
     \<and> (getBool ''soundOnExpire'' call = None \<longrightarrow>
          map_option soundOnExpire (map_of (timerMetadata s') i) = Some True
          \<and> (\<forall>now. e \<le> now \<longrightarrow> Sound \<in> set (snd (ios_step True (Tick now) s')))))"
proof (intro impI)
  assume a: "getString ''id'' call = Some i \<and> getString ''title'' call = Some ttl
     \<and> getDouble ''endTime'' call = Some e \<and> list_all (beforeEnd e) early"
  let ?s0 = "fst (ios_run True pre initial_plugin)"
  let ?md = "\<lparr>md_endTime = e,
                 hapticOnExpire = orElse (getBool ''hapticOnExpire'' call) True,
                 soundOnExpire = orElse (getBool ''soundOnExpire'' call) True,
                 hasExpired = False\<rparr>"
  let ?s' = "fst (ios_run True early (fst (snd (startTimer True call (Inr token) ?s0))))"
  have "armed i ?md (fst (snd (startTimer True call (Inr token) ?s0)))"
    using a startTimer_armed [of call i ttl e ?s0 token] ios_run_distinct_initial [of True pre]
    by blast
  then have arm: "armed i ?md ?s'"
    using a ios_run_armed [of ?md early i _ True] by simp
  then have m: "map_of (timerMetadata ?s') i = Some ?md" by (simp add: armed_def)
  have h: "Haptic \<in> set (snd (ios_step True (Tick now) ?s'))"
    if "getBool ''hapticOnExpire'' call = None" "e \<le> now" for now
    using that armed_tick_haptic [OF arm, of now True] by (simp add: orElse_def)
  have sd: "Sound \<in> set (snd (ios_step True (Tick now) ?s'))"
    if "getBool ''soundOnExpire'' call = None" "e \<le> now" for now
    using that armed_tick_sound [OF arm, of now True] by (simp add: orElse_def)
  show "let s' = ?s'
    in (getBool ''hapticOnExpire'' call = None \<longrightarrow>
          map_option hapticOnExpire (map_of (timerMetadata s') i) = Some True
          \<and> (\<forall>now. e \<le> now \<longrightarrow> Haptic \<in> set (snd (ios_step True (Tick now) s'))))
     \<and> (getBool ''soundOnExpire'' call = None \<longrightarrow>
          map_option soundOnExpire (map_of (timerMetadata s') i) = Some True
          \<and> (\<forall>now. e \<le> now \<longrightarrow> Sound \<in> set (snd (ios_step True (Tick now) s'))))"
    using h sd m by (simp add: Let_def orElse_def)
qed

theorem omitted_expire_flags_default_to_true_witness:
  "list_all (beforeEnd 2000) [Tick 1000, UpdateTimer [(''id'', JStr ''t1''), (''title'', JStr ''B'')]]
   \<and> map_option hapticOnExpire
     (map_of (timerMetadata (fst (ios_run True
        [StartTimer [(''id'', JStr ''t1''), (''title'', JStr ''A''), (''endTime'', JNum 2000)]
           (Inr ''tok''),
         Tick 1000, UpdateTimer [(''id'', JStr ''t1''), (''title'', JStr ''B'')]]
        initial_plugin))) ''t1'') = Some True
   \<and> Haptic \<in> set (snd (ios_run True
        [StartTimer [(''id'', JStr ''t1''), (''title'', JStr ''A''), (''endTime'', JNum 2000)]
           (Inr ''tok''),
         Tick 1000, UpdateTimer [(''id'', JStr ''t1''), (''title'', JStr ''B'')],
         Tick 2000] initial_plugin))
   \<and> Sound \<in> set (snd (ios_run True
        [StartTimer [(''id'', JStr ''t1''), (''title'', JStr ''A''), (''endTime'', JNum 2000)]
           (Inr ''tok''),
         Tick 1000, UpdateTimer [(''id'', JStr ''t1''), (''title'', JStr ''B'')],
         Tick 2000] initial_plugin))"
  using omitted_expire_flags_default_to_true [where call = "[(''id'', JStr ''t1''), (''title'', JStr ''A''), (''endTime'', JNum 2000)]"
               and i = "''t1''" and ttl = "''A''" and e = 2000 and token = "''tok''"
               and pre = "[]"
               and early = "[Tick 1000, UpdateTimer [(''id'', JStr ''t1''), (''title'', JStr ''B'')]]"]
  by (simp add: ios_eval obs_eval beforeEnd_def)

end
